theory Spec2Isabelle
  imports Main "HOL-Library.AList" "HOL-Library.Sublist" "HOL-Library.Char_ord"
begin

text \<open>
  A shallow embedding of the inventory collectors of the repository: the software readers
  (\<^verbatim>\<open>software_reader\<close> and its three platform modules), \<^verbatim>\<open>port_listener\<close> and
  \<^verbatim>\<open>hardware_firmware_reader\<close>.  What the host answers (the platform name, the outcome
  of every command, the results of the \<^verbatim>\<open>re\<close> and \<^verbatim>\<open>json\<close> modules) is the
  environment \<open>env\<close> of a run; a command started twice in one run gives the same
  outcome.  A \<^verbatim>\<open>try\<close> block is the case distinction on what its statements raise.
  The interpreter is Python 3.12 or later, which the f-strings of the Windows reader
  need.
\<close>

section \<open>Python strings\<close>

text \<open>
  A string is a list of characters, and a character is a code point from U+0000 to
  U+00FF: text outside Latin-1 is not represented.  The whitespace of
  \<^verbatim>\<open>str.strip\<close>, \<^verbatim>\<open>str.split()\<close> and \<^verbatim>\<open>int\<close> in this range is tab, line
  feed, vertical tab, form feed, carriage return, the separators 0x1C to 0x1F, the
  blank, NEL (0x85) and the no-break space (0xA0).
\<close>

definition is_space :: "char \<Rightarrow> bool" where
  "is_space c = (c \<in> set [CHR 0x09, CHR 0x0A, CHR 0x0B, CHR 0x0C, CHR 0x0D,
                           CHR 0x1C, CHR 0x1D, CHR 0x1E, CHR 0x1F, CHR 0x20,
                           CHR 0x85, CHR 0xA0])"

definition strip :: "string \<Rightarrow> string" where
  "strip s = rev (dropWhile is_space (rev (dropWhile is_space s)))"

text \<open>\<^verbatim>\<open>s.split()\<close>: the maximal runs of non-whitespace characters.\<close>

fun split_ws_aux :: "string \<Rightarrow> string \<Rightarrow> string list" where
  "split_ws_aux cur [] = (if cur = [] then [] else [rev cur])"
| "split_ws_aux cur (c # cs) =
     (if is_space c
      then (if cur = [] then split_ws_aux [] cs else rev cur # split_ws_aux [] cs)
      else split_ws_aux (c # cur) cs)"

definition split_ws :: "string \<Rightarrow> string list" where
  "split_ws s = split_ws_aux [] s"

text \<open>\<^verbatim>\<open>s.split(c)\<close> for a one-character separator: every occurrence splits.\<close>

fun split_chr_aux :: "char \<Rightarrow> string \<Rightarrow> string \<Rightarrow> string list" where
  "split_chr_aux sep cur [] = [rev cur]"
| "split_chr_aux sep cur (c # cs) =
     (if c = sep then rev cur # split_chr_aux sep [] cs else split_chr_aux sep (c # cur) cs)"

definition split_chr :: "char \<Rightarrow> string \<Rightarrow> string list" where
  "split_chr sep s = split_chr_aux sep [] s"

text \<open>
  \<^verbatim>\<open>s.split(sep, 1)\<close> for a non-empty separator: the text before and after the
  first occurrence, or the string alone when the separator does not occur.
\<close>

fun find_first :: "string \<Rightarrow> string \<Rightarrow> string \<Rightarrow> (string \<times> string) option" where
  "find_first sep cur [] = None"
| "find_first sep cur (c # cs) =
     (if prefix sep (c # cs) then Some (rev cur, drop (length sep) (c # cs))
      else find_first sep (c # cur) cs)"

definition split_once :: "string \<Rightarrow> string \<Rightarrow> string list" where
  "split_once sep s = (case find_first sep [] s of None \<Rightarrow> [s] | Some (a, b) \<Rightarrow> [a, b])"

text \<open>\<^verbatim>\<open>s.rsplit(sep, 1)\<close>: the same at the last occurrence.\<close>

definition rsplit_once :: "string \<Rightarrow> string \<Rightarrow> string list" where
  "rsplit_once sep s =
     (case find_first (rev sep) [] (rev s) of None \<Rightarrow> [s] | Some (b, a) \<Rightarrow> [rev a, rev b])"

text \<open>\<^verbatim>\<open>sub in s\<close>.\<close>

fun contains :: "string \<Rightarrow> string \<Rightarrow> bool" where
  "contains sub [] = (sub = [])"
| "contains sub (c # cs) = (prefix sub (c # cs) \<or> contains sub cs)"

text \<open>\<^verbatim>\<open>sep.join(xs)\<close>.\<close>

fun join :: "string \<Rightarrow> string list \<Rightarrow> string" where
  "join sep [] = []"
| "join sep [x] = x"
| "join sep (x # y # ys) = x @ sep @ join sep (y # ys)"

text \<open>
  \<^verbatim>\<open>s.lower()\<close>: the capital letters of Latin-1 are A to Z and 0xC0 to 0xDE
  without the multiplication sign 0xD7; each has its small letter 32 places on.
\<close>

definition lower_chr :: "char \<Rightarrow> char" where
  "lower_chr c =
     (if (CHR ''A'' \<le> c \<and> c \<le> CHR ''Z'') \<or> (CHR 0xC0 \<le> c \<and> c \<le> CHR 0xDE \<and> c \<noteq> CHR 0xD7)
      then char_of (of_char c + (32::nat)) else c)"

definition lower :: "string \<Rightarrow> string" where
  "lower s = map lower_chr s"

text \<open>The lines a stripped output is cut into: \<^verbatim>\<open>stdout.strip().split('\n')\<close>.\<close>

definition stripped_lines :: "string \<Rightarrow> string list" where
  "stripped_lines out = split_chr (CHR 0x0A) (strip out)"

section \<open>Dictionaries\<close>

text \<open>
  A Python dictionary is an association list with distinct keys in insertion order:
  \<^verbatim>\<open>d[k] = v\<close> replaces the value of a key already present, in place, and appends a
  new key at the end (\<open>AList.update\<close>); \<^verbatim>\<open>d.update(e)\<close> stores the items of
  \<^verbatim>\<open>e\<close> one after the other; \<open>map_of\<close> looks a key up.
\<close>

type_synonym dict = "(string \<times> string) list"

definition dict_update :: "('k \<times> 'v) list \<Rightarrow> ('k \<times> 'v) list \<Rightarrow> ('k \<times> 'v) list" where
  "dict_update d e = fold (\<lambda>(k, v) acc. AList.update k v acc) e d"

definition dict_has :: "('k \<times> 'v) list \<Rightarrow> 'k \<Rightarrow> bool" where
  "dict_has d k = (map_of d k \<noteq> None)"

definition dict_keys :: "('k \<times> 'v) list \<Rightarrow> 'k list" where
  "dict_keys d = map fst d"

section \<open>Python values\<close>

text \<open>
  The values \<^verbatim>\<open>json.loads\<close> returns and the collectors build: \<^verbatim>\<open>None\<close>, booleans,
  integers, strings, lists and dictionaries (association lists in insertion order).
  JSON numbers with a fraction or an exponent (Python floats) are not represented.
\<close>

datatype pyval =
    PNone
  | PBool bool
  | PInt int
  | PStr string
  | PList "pyval list"
  | PDict "(pyval \<times> pyval) list"

text \<open>The truth value of \<^verbatim>\<open>if x:\<close>.\<close>

fun truthy :: "pyval \<Rightarrow> bool" where
  "truthy PNone = False"
| "truthy (PBool b) = b"
| "truthy (PInt n) = (n \<noteq> 0)"
| "truthy (PStr s) = (s \<noteq> [])"
| "truthy (PList xs) = (xs \<noteq> [])"
| "truthy (PDict kvs) = (kvs \<noteq> [])"

text \<open>
  Dictionary keys: lists and dictionaries are unhashable, and \<^verbatim>\<open>True == 1\<close>,
  \<^verbatim>\<open>False == 0\<close> as keys.
\<close>

fun hashable :: "pyval \<Rightarrow> bool" where
  "hashable (PList xs) = False"
| "hashable (PDict kvs) = False"
| "hashable v = True"

fun key_norm :: "pyval \<Rightarrow> pyval" where
  "key_norm (PBool b) = PInt (if b then 1 else 0)"
| "key_norm v = v"

text \<open>\<^verbatim>\<open>d.get(k)\<close> and \<^verbatim>\<open>d.get(k, default)\<close> for a string key.\<close>

definition pget_default :: "(pyval \<times> pyval) list \<Rightarrow> string \<Rightarrow> pyval \<Rightarrow> pyval" where
  "pget_default d k dflt = (case map_of d (PStr k) of None \<Rightarrow> dflt | Some v \<Rightarrow> v)"

definition pget :: "(pyval \<times> pyval) list \<Rightarrow> string \<Rightarrow> pyval" where
  "pget d k = pget_default d k PNone"

text \<open>
  \<^verbatim>\<open>d[k] = v\<close>: the first entry whose key equals \<open>k\<close> keeps its key and takes the
  value, a new key goes to the end.
\<close>

fun pset :: "pyval \<Rightarrow> pyval \<Rightarrow> (pyval \<times> pyval) list \<Rightarrow> (pyval \<times> pyval) list" where
  "pset k v [] = [(k, v)]"
| "pset k v ((k', v') # d) =
     (if key_norm k' = key_norm k then (k', v) # d else (k', v') # pset k v d)"

definition phas :: "(pyval \<times> pyval) list \<Rightarrow> pyval \<Rightarrow> bool" where
  "phas d k = (key_norm k \<in> set (map (key_norm \<circ> fst) d))"

subsection \<open>Integers and text\<close>

definition is_digit :: "char \<Rightarrow> bool" where
  "is_digit c = (CHR ''0'' \<le> c \<and> c \<le> CHR ''9'')"

definition digit_val :: "char \<Rightarrow> nat" where
  "digit_val c = of_char c - 48"

definition digit_chr :: "nat \<Rightarrow> char" where
  "digit_chr n = ''0123456789'' ! n"

text \<open>
  The digits of an integer literal: decimal digits, with single underscores between
  digits.
\<close>

fun digits_ok :: "string \<Rightarrow> bool" where
  "digits_ok [] = False"
| "digits_ok [c] = is_digit c"
| "digits_ok (c # d # r) =
     (is_digit c \<and> (if d = CHR ''_'' then r \<noteq> [] \<and> digits_ok r else digits_ok (d # r)))"

definition digits_val :: "string \<Rightarrow> nat" where
  "digits_val ds = fold (\<lambda>c acc. acc * 10 + digit_val c) ds 0"

text \<open>
  \<^verbatim>\<open>int(s)\<close>: whitespace around, one optional sign, then the digits; \<open>None\<close> is
  \<^verbatim>\<open>ValueError\<close>, which is also raised for more than 4300 digits.  The whitespace
  that \<^verbatim>\<open>int\<close> takes off is narrower than that of \<^verbatim>\<open>str.strip\<close>: the separators
  0x1C to 0x1F are not part of it.
\<close>

definition is_int_space :: "char \<Rightarrow> bool" where
  "is_int_space c = (c \<in> set [CHR 0x09, CHR 0x0A, CHR 0x0B, CHR 0x0C, CHR 0x0D, CHR 0x20,
                               CHR 0x85, CHR 0xA0])"

definition int_max_str_digits :: nat where
  "int_max_str_digits = 4300"

definition py_int :: "string \<Rightarrow> int option" where
  "py_int s =
     (let t = rev (dropWhile is_int_space (rev (dropWhile is_int_space s)));
          body = (if t \<noteq> [] \<and> (hd t = CHR ''-'' \<or> hd t = CHR ''+'') then tl t else t);
          ds = filter is_digit body
      in if digits_ok body \<and> length ds \<le> int_max_str_digits
         then Some (if t \<noteq> [] \<and> hd t = CHR ''-'' then - int (digits_val ds) else int (digits_val ds))
         else None)"

text \<open>\<^verbatim>\<open>str(n)\<close> for an integer.\<close>

fun str_nat :: "nat \<Rightarrow> string" where
  "str_nat n = (if n < 10 then [digit_chr n] else str_nat (n div 10) @ [digit_chr (n mod 10)])"

declare str_nat.simps [simp del]

definition str_int :: "int \<Rightarrow> string" where
  "str_int i = (if i < 0 then CHR ''-'' # str_nat (nat (- i)) else str_nat (nat i))"

text \<open>
  \<^verbatim>\<open>repr(s)\<close> for a string: double quotes when the text has a single quote and no
  double quote, single quotes otherwise; the backslash, the quote in use, line feed,
  carriage return and tab are escaped by a backslash, and the other characters that
  are not printable (below 0x20, 0x7F to 0xA0, 0xAD) as \<^verbatim>\<open>\xNN\<close>.
\<close>

definition hex_chr :: "nat \<Rightarrow> char" where
  "hex_chr n = ''0123456789abcdef'' ! n"

definition repr_chr :: "char \<Rightarrow> char \<Rightarrow> string" where
  "repr_chr q c =
     (if c = CHR 0x5C then [CHR 0x5C, CHR 0x5C]
      else if c = q then [CHR 0x5C, q]
      else if c = CHR 0x0A then [CHR 0x5C, CHR ''n'']
      else if c = CHR 0x0D then [CHR 0x5C, CHR ''r'']
      else if c = CHR 0x09 then [CHR 0x5C, CHR ''t'']
      else if c < CHR 0x20 \<or> (CHR 0x7F \<le> c \<and> c \<le> CHR 0xA0) \<or> c = CHR 0xAD
      then [CHR 0x5C, CHR ''x'', hex_chr (of_char c div 16), hex_chr (of_char c mod 16)]
      else [c])"

definition repr_str :: "string \<Rightarrow> string" where
  "repr_str s =
     (let q = (if CHR 0x27 \<in> set s \<and> CHR 0x22 \<notin> set s then CHR 0x22 else CHR 0x27)
      in [q] @ concat (map (repr_chr q) s) @ [q])"

fun py_repr :: "pyval \<Rightarrow> string" where
  "py_repr PNone = ''None''"
| "py_repr (PBool b) = (if b then ''True'' else ''False'')"
| "py_repr (PInt n) = str_int n"
| "py_repr (PStr s) = repr_str s"
| "py_repr (PList xs) = ''['' @ join '', '' (map py_repr xs) @ '']''"
| "py_repr (PDict kvs) =
     ''{'' @ join '', '' (map (\<lambda>kv. py_repr (fst kv) @ '': '' @ py_repr (snd kv)) kvs) @ ''}''"

text \<open>\<^verbatim>\<open>str(x)\<close>, which an f-string applies: a string is itself.\<close>

definition py_str :: "pyval \<Rightarrow> string" where
  "py_str v = (case v of PStr s \<Rightarrow> s | _ \<Rightarrow> py_repr v)"

section \<open>The environment of a run\<close>

text \<open>
  An exception is its class and the text \<^verbatim>\<open>str(e)\<close> that the handlers print.
\<close>

datatype exn_class =
    FileNotFoundError
  | PermissionError
  | TimeoutExpired
  | UnicodeDecodeError
  | JSONDecodeError
  | ValueError
  | AttributeError
  | TypeError
  | KeyError
  | IndexError
  | RecursionError
  | OSError
  | OtherError

datatype exn = Exn (exn_cls: exn_class) (str_exn: string)

text \<open>
  \<^verbatim>\<open>subprocess.run(cmd, capture_output=True, text=True, timeout=t)\<close> either raises (the
  executable is missing, the timeout expires, the output does not decode) or completes
  with an exit status and the decoded standard output.
\<close>

datatype proc = Raises exn | Completed int string

text \<open>What a function prints and which commands it starts, in order.\<close>

datatype event = Print string | Run "string list"

text \<open>
  The environment of one run: the name \<^verbatim>\<open>platform.system()\<close> gives,
  \<^verbatim>\<open>sys.executable\<close>, and the outcome of each command.

  Python's \<^verbatim>\<open>re\<close> and \<^verbatim>\<open>json\<close> modules are not part of the repository, so their
  results are inputs as well: for each pattern the groups of its match against a subject
  (\<open>None\<close> for no match), and for \<^verbatim>\<open>json.loads\<close> the value or the exception.
  \<^item> \<open>re_rpm\<close>: \<^verbatim>\<open>re.match(r'^(.+)-([^-]+)-([^-]+)\.(.+)$', s)\<close>
  \<^item> \<open>re_portage\<close>: \<^verbatim>\<open>re.match(r'^(.+)/(.+)-([^-]+)$', s)\<close>
  \<^item> \<open>re_string_tag\<close>: \<^verbatim>\<open>re.search(r'<string>(.+)</string>', s)\<close>
  \<^item> \<open>re_macports\<close>: \<^verbatim>\<open>re.match(r'^(\S+)\s+@([^\s+]+)', s)\<close>
  \<^item> \<open>re_mas\<close>: \<^verbatim>\<open>re.match(r'^(\d+)\s+(.+?)\s+\(([^)]+)\)$', s)\<close>
  \<^item> \<open>re_pid\<close>: \<^verbatim>\<open>re.search(r'pid=(\d+)', s)\<close>
  \<^item> \<open>re_quoted\<close>: \<^verbatim>\<open>re.search(r'\("([^"]+)"', s)\<close>
\<close>

record env =
  system :: string
  executable :: string
  run :: "string list \<Rightarrow> proc"
  json_loads :: "string \<Rightarrow> exn + pyval"
  re_rpm :: "string \<Rightarrow> (string \<times> string \<times> string \<times> string) option"
  re_portage :: "string \<Rightarrow> (string \<times> string \<times> string) option"
  re_string_tag :: "string \<Rightarrow> string option"
  re_macports :: "string \<Rightarrow> (string \<times> string) option"
  re_mas :: "string \<Rightarrow> (string \<times> string \<times> string) option"
  re_pid :: "string \<Rightarrow> string option"
  re_quoted :: "string \<Rightarrow> string option"

section \<open>software\_reader\_linux\<close>

definition package_managers :: "(string \<times> string list) list" where
  "package_managers =
     [(''dpkg'', [''dpkg'', ''-l'']),
      (''rpm'', [''rpm'', ''-qa'']),
      (''pacman'', [''pacman'', ''-Q'']),
      (''apk'', [''apk'', ''list'', ''--installed'']),
      (''zypper'', [''zypper'', ''se'', ''--installed-only'']),
      (''portage'', [''qlist'', ''-I''])]"

definition dpkg_line :: "string \<Rightarrow> dict \<Rightarrow> dict" where
  "dpkg_line line sl =
     (if prefix ''ii'' line
      then (let parts = split_ws line
            in if length parts \<ge> 3 then AList.update (parts ! 1) (parts ! 2) sl else sl)
      else sl)"

definition rpm_line :: "env \<Rightarrow> string \<Rightarrow> dict \<Rightarrow> dict" where
  "rpm_line e line sl =
     (if contains ''-'' line
      then (case re_rpm e (strip line) of
              None \<Rightarrow> sl
            | Some (g1, g2, g3, g4) \<Rightarrow> AList.update g1 (g2 @ ''-'' @ g3) sl)
      else sl)"

definition pacman_line :: "string \<Rightarrow> dict \<Rightarrow> dict" where
  "pacman_line line sl =
     (if contains '' '' line
      then (let parts = split_once '' '' line
            in if length parts = 2 then AList.update (parts ! 0) (parts ! 1) sl else sl)
      else sl)"

definition apk_line :: "string \<Rightarrow> dict \<Rightarrow> dict" where
  "apk_line line sl =
     (if line \<noteq> [] \<and> \<not> prefix ''WARNING'' line
      then (let parts = split_chr CHR '' '' line
            in if length parts \<ge> 1
               then (let pkg_info = parts ! 0
                     in if contains ''-'' pkg_info
                        then (let name_version = split_chr CHR ''-'' pkg_info;
                                  name = join ''-'' (take (length name_version - 2) name_version);
                                  version = join ''-'' (drop (length name_version - 2) name_version)
                              in if name \<noteq> [] then AList.update name version sl else sl)
                        else sl)
               else sl)
      else sl)"

definition zypper_line :: "string \<Rightarrow> dict \<Rightarrow> dict" where
  "zypper_line line sl =
     (if contains ''|'' line \<and> \<not> prefix ''S'' line
      then (let parts = map strip (split_chr CHR ''|'' line)
            in if length parts \<ge> 3
               then (let name = parts ! 1; version = parts ! 2
                     in if name \<noteq> [] \<and> version \<noteq> [] then AList.update name version sl else sl)
               else sl)
      else sl)"

definition portage_line :: "env \<Rightarrow> string \<Rightarrow> dict \<Rightarrow> dict" where
  "portage_line e line sl =
     (if contains ''/'' line
      then (case re_portage e (strip line) of
              None \<Rightarrow> sl
            | Some (category, name, version) \<Rightarrow> AList.update (category @ ''/'' @ name) version sl)
      else sl)"

text \<open>The \<^verbatim>\<open>if pm_name == ...\<close> chain over the lines of a successful listing.\<close>

definition parse_pm :: "env \<Rightarrow> string \<Rightarrow> string list \<Rightarrow> dict \<Rightarrow> dict" where
  "parse_pm e pm_name lines sl =
     (if pm_name = ''dpkg'' then fold dpkg_line lines sl
      else if pm_name = ''rpm'' then fold (rpm_line e) lines sl
      else if pm_name = ''pacman'' then fold pacman_line lines sl
      else if pm_name = ''apk'' then fold apk_line lines sl
      else if pm_name = ''zypper'' then fold zypper_line lines sl
      else if pm_name = ''portage'' then fold (portage_line e) lines sl
      else sl)"

text \<open>
  The loop of \<^verbatim>\<open>get_linux_software\<close> from a given package manager on: an exception
  is printed and the next manager is tried, a non-zero exit status goes on to the next
  manager without a word, and exit status 0 parses the listing and leaves the loop.
\<close>

fun pm_loop :: "env \<Rightarrow> (string \<times> string list) list \<Rightarrow> dict \<Rightarrow> dict \<times> event list" where
  "pm_loop e [] sl = (sl, [])"
| "pm_loop e ((pm_name, command) # rest) sl =
     (case run e command of
        Raises ex \<Rightarrow>
          (case pm_loop e rest sl of (sl', evs) \<Rightarrow>
             (sl', [Print (''Trying '' @ pm_name @ '' package manager...''), Run command,
                    Print (pm_name @ '' failed: '' @ str_exn ex)] @ evs))
      | Completed rc out \<Rightarrow>
          if rc = 0
          then (parse_pm e pm_name (stripped_lines out) sl,
                [Print (''Trying '' @ pm_name @ '' package manager...''), Run command])
          else (case pm_loop e rest sl of (sl', evs) \<Rightarrow>
                  (sl', [Print (''Trying '' @ pm_name @ '' package manager...''), Run command] @ evs)))"

definition get_linux_software :: "env \<Rightarrow> dict \<times> event list" where
  "get_linux_software e = pm_loop e package_managers []"

definition snap_line :: "string \<Rightarrow> dict \<Rightarrow> dict" where
  "snap_line line d =
     (if strip line \<noteq> []
      then (let parts = split_ws line
            in if length parts \<ge> 2 then AList.update (''Snap: '' @ parts ! 0) (parts ! 1) d else d)
      else d)"

definition get_snap_packages :: "env \<Rightarrow> dict \<times> event list" where
  "get_snap_packages e =
     (case run e [''snap'', ''list''] of
        Raises ex \<Rightarrow> ([], [Print ''Scanning Snap packages...'', Run [''snap'', ''list'']])
      | Completed rc out \<Rightarrow>
          (if rc = 0 then fold snap_line (drop 1 (stripped_lines out)) [] else [],
           [Print ''Scanning Snap packages...'', Run [''snap'', ''list'']]))"

definition flatpak_cmd :: "string list" where
  "flatpak_cmd = [''flatpak'', ''list'', ''--app'', ''--columns=name,version'']"

definition flatpak_line :: "string \<Rightarrow> dict \<Rightarrow> dict" where
  "flatpak_line line d =
     (if strip line \<noteq> [] \<and> contains [CHR 0x09] line
      then (let parts = split_chr (CHR 0x09) line
            in if length parts \<ge> 2
               then (let name = strip (parts ! 0); version = strip (parts ! 1)
                     in if name \<noteq> [] \<and> version \<noteq> []
                        then AList.update (''Flatpak: '' @ name) version d else d)
               else d)
      else d)"

definition get_flatpak_packages :: "env \<Rightarrow> dict \<times> event list" where
  "get_flatpak_packages e =
     (case run e flatpak_cmd of
        Raises ex \<Rightarrow> ([], [Print ''Scanning Flatpak packages...'', Run flatpak_cmd])
      | Completed rc out \<Rightarrow>
          (if rc = 0 then fold flatpak_line (stripped_lines out) [] else [],
           [Print ''Scanning Flatpak packages...'', Run flatpak_cmd]))"

definition pip_cmd :: "env \<Rightarrow> string list" where
  "pip_cmd e = [executable e, ''-m'', ''pip'', ''list'']"

definition pip_line :: "string \<Rightarrow> dict \<Rightarrow> dict" where
  "pip_line line d =
     (if strip line \<noteq> []
      then (let parts = split_ws line
            in if length parts \<ge> 2 then AList.update (''Python: '' @ parts ! 0) (parts ! 1) d else d)
      else d)"

definition get_python_packages :: "env \<Rightarrow> dict \<times> event list" where
  "get_python_packages e =
     (case run e (pip_cmd e) of
        Raises ex \<Rightarrow>
          ([], [Print ''Scanning Python packages...'', Run (pip_cmd e),
                Print (''Python packages scan failed: '' @ str_exn ex)])
      | Completed rc out \<Rightarrow>
          (if rc = 0 then fold pip_line (drop 2 (stripped_lines out)) [] else [],
           [Print ''Scanning Python packages...'', Run (pip_cmd e)]))"

text \<open>
  \<^verbatim>\<open>get_installed_software\<close> of the Linux reader: four \<^verbatim>\<open>all_software.update\<close>
  calls on an empty dictionary.
\<close>

definition linux_installed_software :: "env \<Rightarrow> dict \<times> event list" where
  "linux_installed_software e =
     (case get_linux_software e of (a, ea) \<Rightarrow>
      case get_snap_packages e of (b, eb) \<Rightarrow>
      case get_flatpak_packages e of (c, ec) \<Rightarrow>
      case get_python_packages e of (d, ed) \<Rightarrow>
        (dict_update (dict_update (dict_update (dict_update [] a) b) c) d,
         [Print ''Detecting software on Linux...''] @ ea @ eb @ ec @ ed))"

section \<open>software\_reader\_windows\<close>

definition wmic_cmd :: "string list" where
  "wmic_cmd = [''wmic'', ''product'', ''get'', ''name,version'', ''/format:csv'']"

definition wmic_line :: "string \<Rightarrow> dict \<Rightarrow> dict" where
  "wmic_line line sl =
     (if strip line \<noteq> [] \<and> contains '','' line
      then (let parts = split_chr CHR '','' line
            in if length parts \<ge> 3
               then (let name = strip (parts ! 1); version = strip (parts ! 2)
                     in if name \<noteq> [] \<and> version \<noteq> [] then AList.update name version sl else sl)
               else sl)
      else sl)"

definition wmic_scan :: "env \<Rightarrow> dict \<Rightarrow> dict \<times> event list" where
  "wmic_scan e sl =
     (case run e wmic_cmd of
        Raises ex \<Rightarrow>
          (sl, [Print ''Scanning Windows software via WMI...'', Run wmic_cmd,
                Print (''WMI method failed: '' @ str_exn ex)])
      | Completed rc out \<Rightarrow>
          (if rc = 0 then fold wmic_line (drop 1 (stripped_lines out)) sl else sl,
           [Print ''Scanning Windows software via WMI...'', Run wmic_cmd]))"

definition registry_paths :: "string list" where
  "registry_paths =
     [''HKLM:'' @ [CHR 0x5C] @ ''Software'' @ [CHR 0x5C] @ ''Microsoft'' @ [CHR 0x5C] @ ''Windows'' @
        [CHR 0x5C] @ ''CurrentVersion'' @ [CHR 0x5C] @ ''Uninstall'' @ [CHR 0x5C] @ ''*'',
      ''HKLM:'' @ [CHR 0x5C] @ ''Software'' @ [CHR 0x5C] @ ''Wow6432Node'' @ [CHR 0x5C] @ ''Microsoft'' @
        [CHR 0x5C] @ ''Windows'' @ [CHR 0x5C] @ ''CurrentVersion'' @ [CHR 0x5C] @ ''Uninstall'' @
        [CHR 0x5C] @ ''*'',
      ''HKCU:'' @ [CHR 0x5C] @ ''Software'' @ [CHR 0x5C] @ ''Microsoft'' @ [CHR 0x5C] @ ''Windows'' @
        [CHR 0x5C] @ ''CurrentVersion'' @ [CHR 0x5C] @ ''Uninstall'' @ [CHR 0x5C] @ ''*'']"

definition registry_script :: "string \<Rightarrow> string" where
  "registry_script registry_path =
     [CHR 0x0A] @ ''            Get-ItemProperty '' @ [CHR 0x27] @ registry_path @ [CHR 0x27] @
     '' | '' @ [CHR 0x0A] @
     ''            Select-Object DisplayName, DisplayVersion, Publisher, InstallDate | '' @
     [CHR 0x0A] @
     ''            Where-Object {$_.DisplayName -ne $null -and $_.DisplayName -ne '' @
     [CHR 0x22, CHR 0x22] @ ''} | '' @ [CHR 0x0A] @ ''            ConvertTo-Json'' @
     [CHR 0x0A] @ ''            ''"

definition package_script :: string where
  "package_script =
     [CHR 0x0A] @ ''        Get-Package | '' @ [CHR 0x0A] @
     ''        Select-Object Name, Version, Source | '' @ [CHR 0x0A] @
     ''        ConvertTo-Json'' @ [CHR 0x0A] @ ''        ''"

definition appx_script :: string where
  "appx_script =
     [CHR 0x0A] @ ''        Get-AppxPackage | '' @ [CHR 0x0A] @
     ''        Where-Object {$_.Name -notlike '' @ [CHR 0x22] @ ''*Microsoft*'' @ [CHR 0x22] @
     '' -and $_.Name -notlike '' @ [CHR 0x22] @ ''*Windows*'' @ [CHR 0x22] @ ''} |'' @
     [CHR 0x0A] @ ''        Select-Object Name, Version | '' @ [CHR 0x0A] @
     ''        ConvertTo-Json'' @ [CHR 0x0A] @ ''        ''"

text \<open>
  \<^verbatim>\<open>version.strip() if version and isinstance(version, str) else 'Unknown'\<close>
\<close>

definition version_text :: "pyval \<Rightarrow> string" where
  "version_text version =
     (case version of PStr v \<Rightarrow> if v \<noteq> [] then strip v else ''Unknown'' | _ \<Rightarrow> ''Unknown'')"

text \<open>
  One object of the registry listing.  The same statements serve an element of a JSON
  array (after \<^verbatim>\<open>isinstance(item, dict)\<close>) and a bare object.
\<close>

definition registry_item :: "pyval \<Rightarrow> dict \<Rightarrow> dict" where
  "registry_item item sl =
     (case item of
        PDict d \<Rightarrow>
          (case pget d ''DisplayName'' of
             PStr name \<Rightarrow>
               if name \<noteq> []
               then (let name' = strip name
                     in if name' \<noteq> [] \<and> \<not> dict_has sl name'
                        then AList.update name' (version_text (pget d ''DisplayVersion'')) sl
                        else sl)
               else sl
           | _ \<Rightarrow> sl)
      | _ \<Rightarrow> sl)"

definition package_item :: "pyval \<Rightarrow> dict \<Rightarrow> dict" where
  "package_item item sl =
     (case item of
        PDict d \<Rightarrow>
          (case pget d ''Name'' of
             PStr name \<Rightarrow>
               if name \<noteq> []
               then (let name' = strip name;
                         source = pget_default d ''Source'' (PStr []);
                         display_name =
                           (if truthy source then name' @ '' ('' @ py_str source @ '')'' else name')
                     in if \<not> dict_has sl display_name
                        then AList.update display_name (version_text (pget d ''Version'')) sl
                        else sl)
               else sl
           | _ \<Rightarrow> sl)
      | _ \<Rightarrow> sl)"

definition appx_item :: "pyval \<Rightarrow> dict \<Rightarrow> dict" where
  "appx_item item sl =
     (case item of
        PDict d \<Rightarrow>
          (case pget d ''Name'' of
             PStr name \<Rightarrow>
               if name \<noteq> []
               then (let name' = strip name; display_name = ''Store: '' @ name'
                     in if \<not> dict_has sl display_name
                        then AList.update display_name (version_text (pget d ''Version'')) sl
                        else sl)
               else sl
           | _ \<Rightarrow> sl)
      | _ \<Rightarrow> sl)"

text \<open>
  \<^verbatim>\<open>if isinstance(data, list): for item in data: ... elif isinstance(data, dict): ...\<close>
\<close>

definition json_items :: "(pyval \<Rightarrow> dict \<Rightarrow> dict) \<Rightarrow> pyval \<Rightarrow> dict \<Rightarrow> dict" where
  "json_items item_fn data sl =
     (case data of
        PList items \<Rightarrow> fold item_fn items sl
      | PDict d \<Rightarrow> item_fn (PDict d) sl
      | _ \<Rightarrow> sl)"

text \<open>
  One PowerShell method of \<^verbatim>\<open>get_windows_software\<close>: the inner handler takes
  \<^verbatim>\<open>JSONDecodeError\<close> and \<^verbatim>\<open>AttributeError\<close>, the outer one every other exception;
  each prints its own line.
\<close>

definition powershell_scan ::
  "env \<Rightarrow> string \<Rightarrow> string \<Rightarrow> string \<Rightarrow> string \<Rightarrow> (pyval \<Rightarrow> dict \<Rightarrow> dict) \<Rightarrow> dict
     \<Rightarrow> dict \<times> event list" where
  "powershell_scan e announce ps_script parse_failed scan_failed item_fn sl =
     (let cmd = [''powershell'', ''-Command'', ps_script]
      in case run e cmd of
           Raises ex \<Rightarrow> (sl, [Print announce, Run cmd, Print (scan_failed @ str_exn ex)])
         | Completed rc out \<Rightarrow>
             if rc = 0 \<and> strip out \<noteq> []
             then (case json_loads e out of
                     Inl ex \<Rightarrow>
                       (sl, [Print announce, Run cmd,
                             Print ((if exn_cls ex = JSONDecodeError \<or> exn_cls ex = AttributeError
                                     then parse_failed else scan_failed) @ str_exn ex)])
                   | Inr data \<Rightarrow> (json_items item_fn data sl, [Print announce, Run cmd]))
             else (sl, [Print announce, Run cmd]))"

text \<open>\<^verbatim>\<open>registry_path.split('\\')[-2]\<close>\<close>

definition path_label :: "string \<Rightarrow> string" where
  "path_label registry_path =
     (let ps = split_chr (CHR 0x5C) registry_path in ps ! (length ps - 2))"

definition registry_scan :: "env \<Rightarrow> string \<Rightarrow> dict \<Rightarrow> dict \<times> event list" where
  "registry_scan e registry_path sl =
     powershell_scan e (''Scanning registry path: '' @ path_label registry_path @ ''...'')
       (registry_script registry_path)
       (''JSON parsing failed for '' @ registry_path @ '': '')
       (''Registry scan failed for '' @ registry_path @ '': '')
       registry_item sl"

fun registry_loop :: "env \<Rightarrow> string list \<Rightarrow> dict \<Rightarrow> dict \<times> event list" where
  "registry_loop e [] sl = (sl, [])"
| "registry_loop e (registry_path # rest) sl =
     (case registry_scan e registry_path sl of (sl1, ev1) \<Rightarrow>
      case registry_loop e rest sl1 of (sl2, ev2) \<Rightarrow> (sl2, ev1 @ ev2))"

definition package_scan :: "env \<Rightarrow> dict \<Rightarrow> dict \<times> event list" where
  "package_scan e sl =
     powershell_scan e ''Scanning via PackageManagement...'' package_script
       ''PackageManagement JSON parsing failed: '' ''PackageManagement method failed: ''
       package_item sl"

definition appx_scan :: "env \<Rightarrow> dict \<Rightarrow> dict \<times> event list" where
  "appx_scan e sl =
     powershell_scan e ''Scanning Windows Store apps...'' appx_script
       ''AppX JSON parsing failed: '' ''AppX method failed: ''
       appx_item sl"

definition get_windows_software :: "env \<Rightarrow> dict \<times> event list" where
  "get_windows_software e =
     (case wmic_scan e [] of (sl1, ev1) \<Rightarrow>
      case registry_loop e registry_paths sl1 of (sl2, ev2) \<Rightarrow>
      case package_scan e sl2 of (sl3, ev3) \<Rightarrow>
      case appx_scan e sl3 of (sl4, ev4) \<Rightarrow> (sl4, ev1 @ ev2 @ ev3 @ ev4))"

definition windows_installed_software :: "env \<Rightarrow> dict \<times> event list" where
  "windows_installed_software e =
     (case get_windows_software e of (a, ea) \<Rightarrow>
      case get_python_packages e of (b, eb) \<Rightarrow>
        (dict_update (dict_update [] a) b,
         [Print ''Detecting software on Windows...''] @ ea @ eb))"

section \<open>software\_reader\_macos\<close>

definition profiler_apps_cmd :: "string list" where
  "profiler_apps_cmd = [''system_profiler'', ''SPApplicationsDataType'', ''-xml'']"

text \<open>
  The loop over \<^verbatim>\<open>enumerate(lines)\<close>: \<open>rest\<close> holds the lines after the current
  one, so \<^verbatim>\<open>i + 1 < len(lines)\<close> is \<open>rest \<noteq> []\<close> and \<^verbatim>\<open>lines[i + 1]\<close> its head.
\<close>

fun apps_loop :: "env \<Rightarrow> string list \<Rightarrow> string option \<Rightarrow> dict \<Rightarrow> dict" where
  "apps_loop e [] current_app sl = sl"
| "apps_loop e (line # rest) current_app sl =
     (if contains ''<key>_name</key>'' line
      then (case rest of
              [] \<Rightarrow> apps_loop e rest current_app sl
            | nxt # _ \<Rightarrow>
                (case re_string_tag e nxt of
                   None \<Rightarrow> apps_loop e rest current_app sl
                 | Some g \<Rightarrow> apps_loop e rest (Some g) sl))
      else if contains ''<key>version</key>'' line \<and> current_app \<noteq> None \<and> current_app \<noteq> Some []
      then (case rest of
              [] \<Rightarrow> apps_loop e rest current_app sl
            | nxt # _ \<Rightarrow>
                (case re_string_tag e nxt of
                   None \<Rightarrow> apps_loop e rest current_app sl
                 | Some g \<Rightarrow> apps_loop e rest None (AList.update (the current_app) g sl)))
      else apps_loop e rest current_app sl)"

definition get_macos_applications :: "env \<Rightarrow> dict \<times> event list" where
  "get_macos_applications e =
     (case run e profiler_apps_cmd of
        Raises ex \<Rightarrow>
          ([], [Print ''Scanning macOS applications...'', Run profiler_apps_cmd,
                Print (''macOS system_profiler failed: '' @ str_exn ex)])
      | Completed rc out \<Rightarrow>
          (if rc = 0 then apps_loop e (split_chr (CHR 0x0A) out) None [] else [],
           [Print ''Scanning macOS applications...'', Run profiler_apps_cmd]))"

definition brew_cmd :: "string list" where
  "brew_cmd = [''brew'', ''list'', ''--versions'']"

definition brew_line :: "string \<Rightarrow> dict \<Rightarrow> dict" where
  "brew_line line d =
     (if strip line \<noteq> []
      then (let parts = split_once '' '' line
            in if length parts \<ge> 2 then AList.update (''Homebrew: '' @ parts ! 0) (parts ! 1) d else d)
      else d)"

definition get_homebrew_packages :: "env \<Rightarrow> dict \<times> event list" where
  "get_homebrew_packages e =
     (case run e brew_cmd of
        Raises ex \<Rightarrow> ([], [Print ''Scanning Homebrew packages...'', Run brew_cmd])
      | Completed rc out \<Rightarrow>
          (if rc = 0 then fold brew_line (stripped_lines out) [] else [],
           [Print ''Scanning Homebrew packages...'', Run brew_cmd]))"

definition cask_cmd :: "string list" where
  "cask_cmd = [''brew'', ''list'', ''--cask'', ''--versions'']"

definition cask_line :: "string \<Rightarrow> dict \<Rightarrow> dict" where
  "cask_line line d =
     (if strip line \<noteq> []
      then (let parts = split_once '' '' line
            in if length parts \<ge> 2
               then AList.update (''Homebrew Cask: '' @ parts ! 0) (parts ! 1) d
               else if length parts = 1
               then AList.update (''Homebrew Cask: '' @ parts ! 0) ''Unknown'' d
               else d)
      else d)"

definition get_homebrew_cask_packages :: "env \<Rightarrow> dict \<times> event list" where
  "get_homebrew_cask_packages e =
     (case run e cask_cmd of
        Raises ex \<Rightarrow> ([], [Print ''Scanning Homebrew Cask packages...'', Run cask_cmd])
      | Completed rc out \<Rightarrow>
          (if rc = 0 then fold cask_line (stripped_lines out) [] else [],
           [Print ''Scanning Homebrew Cask packages...'', Run cask_cmd]))"

definition port_cmd :: "string list" where
  "port_cmd = [''port'', ''installed'']"

definition macports_line :: "env \<Rightarrow> string \<Rightarrow> dict \<Rightarrow> dict" where
  "macports_line e line d =
     (if strip line \<noteq> []
      then (case re_macports e (strip line) of
              None \<Rightarrow> d
            | Some (name, version) \<Rightarrow> AList.update (''MacPorts: '' @ name) version d)
      else d)"

definition get_macports_packages :: "env \<Rightarrow> dict \<times> event list" where
  "get_macports_packages e =
     (case run e port_cmd of
        Raises ex \<Rightarrow> ([], [Print ''Scanning MacPorts packages...'', Run port_cmd])
      | Completed rc out \<Rightarrow>
          (if rc = 0 then fold (macports_line e) (drop 1 (stripped_lines out)) [] else [],
           [Print ''Scanning MacPorts packages...'', Run port_cmd]))"

definition mas_cmd :: "string list" where
  "mas_cmd = [''mas'', ''list'']"

definition mas_line :: "env \<Rightarrow> string \<Rightarrow> dict \<Rightarrow> dict" where
  "mas_line e line d =
     (if strip line \<noteq> []
      then (case re_mas e (strip line) of
              None \<Rightarrow> d
            | Some (app_id, name, version) \<Rightarrow> AList.update (''App Store: '' @ name) version d)
      else d)"

definition get_app_store_apps :: "env \<Rightarrow> dict \<times> event list" where
  "get_app_store_apps e =
     (case run e mas_cmd of
        Raises ex \<Rightarrow> ([], [Print ''Scanning Mac App Store apps...'', Run mas_cmd])
      | Completed rc out \<Rightarrow>
          (if rc = 0 then fold (mas_line e) (stripped_lines out) [] else [],
           [Print ''Scanning Mac App Store apps...'', Run mas_cmd]))"

definition macos_installed_software :: "env \<Rightarrow> dict \<times> event list" where
  "macos_installed_software e =
     (case get_macos_applications e of (a, ea) \<Rightarrow>
      case get_homebrew_packages e of (b, eb) \<Rightarrow>
      case get_homebrew_cask_packages e of (c, ec) \<Rightarrow>
      case get_macports_packages e of (d, ed) \<Rightarrow>
      case get_app_store_apps e of (f, ef) \<Rightarrow>
      case get_python_packages e of (g, eg) \<Rightarrow>
        (dict_update (dict_update (dict_update (dict_update (dict_update (dict_update [] a) b) c) d) f) g,
         [Print ''Detecting software on macOS...''] @ ea @ eb @ ec @ ed @ ef @ eg))"

section \<open>The software summaries\<close>

text \<open>
  \<^verbatim>\<open>len([k for k in software.keys() if ...])\<close>; the summary is the list of its
  counts in the order of the dictionary literal, beside the \<^verbatim>\<open>software_list\<close>.
\<close>

definition count_keys :: "(string \<Rightarrow> bool) \<Rightarrow> dict \<Rightarrow> nat" where
  "count_keys P software = length (filter P (dict_keys software))"

definition linux_summary :: "dict \<Rightarrow> (string \<times> nat) list \<times> dict" where
  "linux_summary software =
     ([(''total_count'', length software),
       (''python_packages'', count_keys (prefix ''Python:'') software),
       (''system_packages'',
          count_keys (\<lambda>k. \<not> (prefix ''Python:'' k \<or> prefix ''Snap:'' k \<or> prefix ''Flatpak:'' k)) software),
       (''snap_packages'', count_keys (prefix ''Snap:'') software),
       (''flatpak_packages'', count_keys (prefix ''Flatpak:'') software)],
      software)"

definition windows_summary :: "dict \<Rightarrow> (string \<times> nat) list \<times> dict" where
  "windows_summary software =
     ([(''total_count'', length software),
       (''python_packages'', count_keys (prefix ''Python:'') software),
       (''system_software'', count_keys (\<lambda>k. \<not> prefix ''Python:'' k) software),
       (''store_apps'', count_keys (prefix ''Store:'') software)],
      software)"

definition macos_summary :: "dict \<Rightarrow> (string \<times> nat) list \<times> dict" where
  "macos_summary software =
     ([(''total_count'', length software),
       (''python_packages'', count_keys (prefix ''Python:'') software),
       (''system_applications'',
          count_keys (\<lambda>k. \<not> (prefix ''Python:'' k \<or> prefix ''Homebrew:'' k \<or> prefix ''MacPorts:'' k
                               \<or> prefix ''App Store:'' k)) software),
       (''homebrew_packages'', count_keys (prefix ''Homebrew:'') software),
       (''macports_packages'', count_keys (prefix ''MacPorts:'') software),
       (''app_store_apps'', count_keys (prefix ''App Store:'') software)],
      software)"

section \<open>software\_reader\<close>

datatype reader = Windows_reader | Linux_reader | Macos_reader

definition unsupported :: "string \<Rightarrow> string" where
  "unsupported sys_name = ''Unsupported operating system: '' @ sys_name"

definition get_platform_reader :: "env \<Rightarrow> exn + reader" where
  "get_platform_reader e =
     (let sys_name = lower (system e)
      in if sys_name = ''windows'' then Inr Windows_reader
         else if sys_name = ''linux'' then Inr Linux_reader
         else if sys_name = ''darwin'' then Inr Macos_reader
         else Inl (Exn OSError (unsupported sys_name)))"

fun reader_installed_software :: "reader \<Rightarrow> env \<Rightarrow> dict \<times> event list" where
  "reader_installed_software Windows_reader e = windows_installed_software e"
| "reader_installed_software Linux_reader e = linux_installed_software e"
| "reader_installed_software Macos_reader e = macos_installed_software e"

fun reader_summary :: "reader \<Rightarrow> dict \<Rightarrow> (string \<times> nat) list \<times> dict" where
  "reader_summary Windows_reader = windows_summary"
| "reader_summary Linux_reader = linux_summary"
| "reader_summary Macos_reader = macos_summary"

definition get_installed_software :: "env \<Rightarrow> exn + dict \<times> event list" where
  "get_installed_software e =
     (case get_platform_reader e of
        Inl ex \<Rightarrow> Inl ex
      | Inr reader \<Rightarrow> Inr (reader_installed_software reader e))"

definition get_software_summary :: "env \<Rightarrow> exn + ((string \<times> nat) list \<times> dict) \<times> event list" where
  "get_software_summary e =
     (case get_platform_reader e of
        Inl ex \<Rightarrow> Inl ex
      | Inr reader \<Rightarrow>
          (case reader_installed_software reader e of (software, evs) \<Rightarrow>
             Inr (reader_summary reader software, evs)))"

section \<open>port\_listener\<close>

text \<open>
  The dictionaries of this module and of the firmware reader hold values of several
  types, so they are \<open>pyval\<close> dictionaries.  What the two modules print is left out.
\<close>

type_synonym pdict = "(pyval \<times> pyval) list"

definition port_entry :: "pyval \<Rightarrow> pyval \<Rightarrow> pyval \<Rightarrow> pyval \<Rightarrow> pyval \<Rightarrow> pyval \<Rightarrow> pyval" where
  "port_entry protocol port address state pid process =
     PDict [(PStr ''Protocol'', protocol), (PStr ''Port'', port), (PStr ''Local Address'', address),
            (PStr ''State'', state), (PStr ''PID'', pid), (PStr ''Process'', process)]"

text \<open>\<^verbatim>\<open>if ports: port_info[category] = ports\<close>\<close>

definition set_if_any :: "string \<Rightarrow> pdict \<Rightarrow> pdict \<Rightarrow> pdict" where
  "set_if_any category entries info =
     (if entries \<noteq> [] then pset (PStr category) (PDict entries) info else info)"

subsection \<open>Windows\<close>

definition win_netstat_line :: "string \<Rightarrow> pdict \<Rightarrow> pdict" where
  "win_netstat_line line listening_ports =
     (if contains ''LISTENING'' line \<or> contains ''ESTABLISHED'' line
      then (let parts = split_ws line
            in if length parts \<ge> 5
               then (let protocol = parts ! 0; local_address = parts ! 1; state = parts ! 3;
                         pid = (if parts ! 4 \<noteq> ''0'' then parts ! 4 else ''Unknown'')
                     in if contains '':'' local_address
                        then (case rsplit_once '':'' local_address of
                                [ip, port] \<Rightarrow>
                                  (case py_int port of
                                     None \<Rightarrow> listening_ports
                                   | Some port_num \<Rightarrow>
                                       (let key = PStr (protocol @ '':'' @ str_int port_num)
                                        in if \<not> phas listening_ports key
                                           then pset key
                                                  (port_entry (PStr protocol) (PInt port_num) (PStr ip)
                                                     (PStr state) (PStr pid) (PStr ''Unknown''))
                                                  listening_ports
                                           else listening_ports))
                              | _ \<Rightarrow> listening_ports)
                        else listening_ports)
               else listening_ports)
      else listening_ports)"

text \<open>
  The dictionary the loop builds from a listing: \<^verbatim>\<open>for line in lines[4:]\<close> over
  \<^verbatim>\<open>lines = result.stdout.strip().split('\n')\<close>.
\<close>

definition win_listening_ports :: "string \<Rightarrow> pdict" where
  "win_listening_ports out = fold win_netstat_line (drop 4 (stripped_lines out)) []"

definition win_netstat :: "env \<Rightarrow> pdict \<Rightarrow> pdict" where
  "win_netstat e port_info =
     (case run e [''netstat'', ''-ano''] of
        Raises ex \<Rightarrow> port_info
      | Completed rc out \<Rightarrow>
          if rc = 0
          then set_if_any ''Listening Ports'' (win_listening_ports out) port_info
          else port_info)"

definition tasklist_cmd :: "string \<Rightarrow> string list" where
  "tasklist_cmd pid = [''tasklist'', ''/FI'', ''PID eq '' @ pid, ''/FO'', ''CSV'']"

text \<open>
  The process name of one entry: \<^verbatim>\<open>lines[1].replace('"', '').split(',')[0]\<close> of the
  \<^verbatim>\<open>tasklist\<close> answer; a failing lookup leaves the entry as it is.
\<close>

definition map_process :: "env \<Rightarrow> pyval \<Rightarrow> pyval" where
  "map_process e port_data =
     (case port_data of
        PDict d \<Rightarrow>
          (let pid = pget d ''PID''
           in if truthy pid \<and> pid \<noteq> PStr ''Unknown'' \<and> pid \<noteq> PStr ''0''
              then (case run e (tasklist_cmd (py_str pid)) of
                      Raises ex \<Rightarrow> port_data
                    | Completed rc out \<Rightarrow>
                        if rc = 0
                        then (let lines = stripped_lines out
                              in if length lines > 1
                                 then (let process_line =
                                             split_chr CHR '','' (filter (\<lambda>c. c \<noteq> CHR 0x22) (lines ! 1))
                                       in if length process_line > 0
                                          then PDict (pset (PStr ''Process'') (PStr (process_line ! 0)) d)
                                          else port_data)
                                 else port_data)
                        else port_data)
              else port_data)
      | _ \<Rightarrow> port_data)"

definition win_processes :: "env \<Rightarrow> pdict \<Rightarrow> pdict" where
  "win_processes e port_info =
     (case map_of port_info (PStr ''Listening Ports'') of
        Some (PDict ports) \<Rightarrow>
          pset (PStr ''Listening Ports'') (PDict (map (\<lambda>(k, port_data). (k, map_process e port_data)) ports))
            port_info
      | _ \<Rightarrow> port_info)"

definition tcp_script :: string where
  "tcp_script =
     [CHR 0x0A] @ ''        Get-NetTCPConnection | Where-Object {$_.State -eq '' @ [CHR 0x22] @
     ''Listen'' @ [CHR 0x22] @ ''} | '' @ [CHR 0x0A] @
     ''        Select-Object LocalAddress, LocalPort, OwningProcess | '' @ [CHR 0x0A] @
     ''        ConvertTo-Json'' @ [CHR 0x0A] @ ''        ''"

definition tcp_conn :: "pyval \<Rightarrow> pdict \<Rightarrow> pdict" where
  "tcp_conn conn tcp_listeners =
     (case conn of
        PDict d \<Rightarrow>
          (let port = pget d ''LocalPort'';
               address = pget_default d ''LocalAddress'' (PStr ''0.0.0.0'');
               pid = pget d ''OwningProcess''
           in if truthy port
              then pset (PStr (''TCP:'' @ py_str port))
                     (port_entry (PStr ''TCP'') port address (PStr ''LISTENING'') pid (PStr ''Unknown''))
                     tcp_listeners
              else tcp_listeners)
      | _ \<Rightarrow> tcp_listeners)"

definition tcp_listeners_of :: "pyval \<Rightarrow> pdict" where
  "tcp_listeners_of data =
     (case data of
        PList conns \<Rightarrow> fold tcp_conn conns []
      | PDict d \<Rightarrow> tcp_conn (PDict d) []
      | _ \<Rightarrow> [])"

definition win_tcp :: "env \<Rightarrow> pdict \<Rightarrow> pdict" where
  "win_tcp e port_info =
     (case run e [''powershell'', ''-Command'', tcp_script] of
        Raises ex \<Rightarrow> port_info
      | Completed rc out \<Rightarrow>
          if rc = 0 \<and> strip out \<noteq> []
          then (case json_loads e out of
                  Inl ex \<Rightarrow> port_info
                | Inr data \<Rightarrow> set_if_any ''TCP Listeners'' (tcp_listeners_of data) port_info)
          else port_info)"

definition get_windows_ports :: "env \<Rightarrow> pdict" where
  "get_windows_ports e = win_tcp e (win_processes e (win_netstat e []))"

subsection \<open>Linux\<close>

definition linux_netstat_line :: "string \<Rightarrow> pdict \<Rightarrow> pdict" where
  "linux_netstat_line line listening_ports =
     (if contains ''LISTEN'' line \<or> contains ''udp'' (lower line)
      then (let parts = split_ws line
            in if length parts \<ge> 6
               then (let protocol = parts ! 0; local_address = parts ! 3;
                         process_info = (if length parts > 6 then parts ! 6 else ''Unknown'')
                     in if contains '':'' local_address
                        then (case rsplit_once '':'' local_address of
                                [ip, port] \<Rightarrow>
                                  (case py_int port of
                                     None \<Rightarrow> listening_ports
                                   | Some port_num \<Rightarrow>
                                       (let key = PStr (protocol @ '':'' @ str_int port_num);
                                            pid_process =
                                              (if contains ''/'' process_info
                                               then (case split_once ''/'' process_info of
                                                       [pid_part, process] \<Rightarrow> (pid_part, process)
                                                     | _ \<Rightarrow> (''Unknown'', ''Unknown''))
                                               else (''Unknown'', ''Unknown''))
                                        in pset key
                                             (port_entry (PStr protocol) (PInt port_num) (PStr ip)
                                                (PStr ''LISTENING'') (PStr (fst pid_process))
                                                (PStr (snd pid_process)))
                                             listening_ports))
                              | _ \<Rightarrow> listening_ports)
                        else listening_ports)
               else listening_ports)
      else listening_ports)"

text \<open>
  The dictionary the loop builds from a listing: \<^verbatim>\<open>for line in lines\<close> over
  \<^verbatim>\<open>lines = result.stdout.strip().split('\n')\<close>.
\<close>

definition linux_listening_ports :: "string \<Rightarrow> pdict" where
  "linux_listening_ports out = fold linux_netstat_line (stripped_lines out) []"

definition linux_netstat :: "env \<Rightarrow> pdict \<Rightarrow> pdict" where
  "linux_netstat e port_info =
     (case run e [''netstat'', ''-tulpn''] of
        Raises ex \<Rightarrow> port_info
      | Completed rc out \<Rightarrow>
          if rc = 0
          then set_if_any ''Listening Ports'' (linux_listening_ports out) port_info
          else port_info)"

definition ss_line :: "env \<Rightarrow> string \<Rightarrow> pdict \<Rightarrow> pdict" where
  "ss_line e line ss_ports =
     (if contains ''LISTEN'' line \<or> contains ''UNCONN'' line
      then (let parts = split_ws line
            in if length parts \<ge> 5
               then (let protocol = parts ! 0; local_address = parts ! 4;
                         process_info = (if length parts > 6 then parts ! 6 else ''Unknown'')
                     in if contains '':'' local_address
                        then (case rsplit_once '':'' local_address of
                                [ip, port] \<Rightarrow>
                                  (case py_int port of
                                     None \<Rightarrow> ss_ports
                                   | Some port_num \<Rightarrow>
                                       (let key = PStr (protocol @ '':'' @ str_int port_num);
                                            pid = (if contains ''pid='' process_info
                                                   then (case re_pid e process_info of
                                                           Some g \<Rightarrow> g | None \<Rightarrow> ''Unknown'')
                                                   else ''Unknown'');
                                            process =
                                              (if contains ''('' process_info \<and> contains '')'' process_info
                                               then (case re_quoted e process_info of
                                                       Some g \<Rightarrow> g | None \<Rightarrow> ''Unknown'')
                                               else ''Unknown'')
                                        in pset key
                                             (port_entry (PStr protocol) (PInt port_num) (PStr ip)
                                                (PStr ''LISTENING'') (PStr pid) (PStr process))
                                             ss_ports))
                              | _ \<Rightarrow> ss_ports)
                        else ss_ports)
               else ss_ports)
      else ss_ports)"

definition linux_ss :: "env \<Rightarrow> pdict \<Rightarrow> pdict" where
  "linux_ss e port_info =
     (case run e [''ss'', ''-tulpn''] of
        Raises ex \<Rightarrow> port_info
      | Completed rc out \<Rightarrow>
          if rc = 0
          then set_if_any ''SS Listeners'' (fold (ss_line e) (drop 1 (stripped_lines out)) []) port_info
          else port_info)"

definition get_linux_ports :: "env \<Rightarrow> pdict" where
  "get_linux_ports e = linux_ss e (linux_netstat e [])"

subsection \<open>macOS\<close>

definition macos_netstat_line :: "string \<Rightarrow> pdict \<Rightarrow> pdict" where
  "macos_netstat_line line listening_ports =
     (if contains ''LISTEN'' line
      then (let parts = split_ws line
            in if length parts \<ge> 6
               then (let protocol = parts ! 0; local_address = parts ! 3
                     in if contains ''.'' local_address
                        then (case rsplit_once ''.'' local_address of
                                [ip, port] \<Rightarrow>
                                  (case py_int port of
                                     None \<Rightarrow> listening_ports
                                   | Some port_num \<Rightarrow>
                                       pset (PStr (protocol @ '':'' @ str_int port_num))
                                         (port_entry (PStr protocol) (PInt port_num) (PStr ip)
                                            (PStr ''LISTENING'') (PStr ''Unknown'') (PStr ''Unknown''))
                                         listening_ports)
                              | _ \<Rightarrow> listening_ports)
                        else listening_ports)
               else listening_ports)
      else listening_ports)"

definition macos_netstat :: "env \<Rightarrow> pdict \<Rightarrow> pdict" where
  "macos_netstat e port_info =
     (case run e [''netstat'', ''-an''] of
        Raises ex \<Rightarrow> port_info
      | Completed rc out \<Rightarrow>
          if rc = 0
          then set_if_any ''Listening Ports'' (fold macos_netstat_line (stripped_lines out) []) port_info
          else port_info)"

definition lsof_line :: "string \<Rightarrow> pdict \<Rightarrow> pdict" where
  "lsof_line line lsof_ports =
     (if contains ''LISTEN'' line
      then (let parts = split_ws line
            in if length parts \<ge> 9
               then (let process = parts ! 0; pid = parts ! 1; protocol_port = parts ! 8
                     in if contains '':'' protocol_port \<and> \<not> contains ''->'' protocol_port
                        then (case rsplit_once '':'' protocol_port of
                                [address, port] \<Rightarrow>
                                  (case py_int port of
                                     None \<Rightarrow> lsof_ports
                                   | Some port_num \<Rightarrow>
                                       pset (PStr (''TCP:'' @ str_int port_num))
                                         (port_entry (PStr ''TCP'') (PInt port_num)
                                            (PStr (if address \<noteq> ''*'' then address else ''0.0.0.0''))
                                            (PStr ''LISTENING'') (PStr pid) (PStr process))
                                         lsof_ports)
                              | _ \<Rightarrow> lsof_ports)
                        else lsof_ports)
               else lsof_ports)
      else lsof_ports)"

definition macos_lsof :: "env \<Rightarrow> pdict \<Rightarrow> pdict" where
  "macos_lsof e port_info =
     (case run e [''lsof'', ''-i'', ''-P'', ''-n''] of
        Raises ex \<Rightarrow> port_info
      | Completed rc out \<Rightarrow>
          if rc = 0
          then set_if_any ''LSOF Listeners'' (fold lsof_line (drop 1 (stripped_lines out)) []) port_info
          else port_info)"

definition get_macos_ports :: "env \<Rightarrow> pdict" where
  "get_macos_ports e = macos_lsof e (macos_netstat e [])"

subsection \<open>The entry point\<close>

definition get_listening_ports :: "env \<Rightarrow> exn + pyval" where
  "get_listening_ports e =
     (let sys_name = lower (system e)
      in if sys_name = ''windows'' then Inr (PDict (get_windows_ports e))
         else if sys_name = ''linux'' then Inr (PDict (get_linux_ports e))
         else if sys_name = ''darwin'' then Inr (PDict (get_macos_ports e))
         else Inr (PDict [(PStr ''error'', PStr (unsupported sys_name))]))"

section \<open>hardware\_firmware\_reader\<close>

subsection \<open>Windows\<close>

definition bios_script :: string where
  "bios_script =
     [CHR 0x0A] @ ''        Get-WmiObject -Class Win32_BIOS | '' @ [CHR 0x0A] @
     ''        Select-Object Manufacturer, Name, Version, ReleaseDate, SerialNumber | '' @
     [CHR 0x0A] @ ''        ConvertTo-Json'' @ [CHR 0x0A] @ ''        ''"

definition baseboard_script :: string where
  "baseboard_script =
     [CHR 0x0A] @ ''        Get-WmiObject -Class Win32_BaseBoard | '' @ [CHR 0x0A] @
     ''        Select-Object Manufacturer, Product, Version, SerialNumber | '' @ [CHR 0x0A] @
     ''        ConvertTo-Json'' @ [CHR 0x0A] @ ''        ''"

definition adapter_script :: string where
  "adapter_script =
     [CHR 0x0A] @ ''        Get-WmiObject -Class Win32_NetworkAdapter | '' @ [CHR 0x0A] @
     ''        Where-Object {$_.PhysicalAdapter -eq $true -and $_.AdapterType -ne $null} |'' @
     [CHR 0x0A] @ ''        Select-Object Name, Manufacturer, Description, DriverVersion | '' @
     [CHR 0x0A] @ ''        ConvertTo-Json'' @ [CHR 0x0A] @ ''        ''"

definition disk_script :: string where
  "disk_script =
     [CHR 0x0A] @ ''        Get-WmiObject -Class Win32_DiskDrive | '' @ [CHR 0x0A] @
     ''        Select-Object Model, Manufacturer, FirmwareRevision, SerialNumber, InterfaceType | '' @
     [CHR 0x0A] @ ''        ConvertTo-Json'' @ [CHR 0x0A] @ ''        ''"

definition video_script :: string where
  "video_script =
     [CHR 0x0A] @ ''        Get-WmiObject -Class Win32_VideoController | '' @ [CHR 0x0A] @
     ''        Select-Object Name, DriverVersion, DriverDate, VideoProcessor | '' @
     [CHR 0x0A] @ ''        ConvertTo-Json'' @ [CHR 0x0A] @ ''        ''"

text \<open>
  One PowerShell method: the statements after \<^verbatim>\<open>json.loads\<close> are \<open>handle\<close>, which
  gives \<open>None\<close> when one of them raises.  Whatever is raised in the block, one of
  its two handlers takes it and \<^verbatim>\<open>firmware_info\<close> stays as it was.
\<close>

definition fw_powershell :: "env \<Rightarrow> string \<Rightarrow> (pyval \<Rightarrow> pdict \<Rightarrow> pdict option) \<Rightarrow> pdict \<Rightarrow> pdict" where
  "fw_powershell e ps_script handle firmware_info =
     (case run e [''powershell'', ''-Command'', ps_script] of
        Raises ex \<Rightarrow> firmware_info
      | Completed rc out \<Rightarrow>
          if rc = 0 \<and> strip out \<noteq> []
          then (case json_loads e out of
                  Inl ex \<Rightarrow> firmware_info
                | Inr data \<Rightarrow>
                    (case handle data firmware_info of None \<Rightarrow> firmware_info | Some fi \<Rightarrow> fi))
          else firmware_info)"

text \<open>\<^verbatim>\<open>{label: data.get(field, 'Unknown'), ...}\<close>\<close>

definition fields_of :: "(string \<times> string) list \<Rightarrow> pdict \<Rightarrow> pyval" where
  "fields_of labels d =
     PDict (map (\<lambda>(label, field). (PStr label, pget_default d field (PStr ''Unknown''))) labels)"

definition single_component :: "string \<Rightarrow> (string \<times> string) list \<Rightarrow> pyval \<Rightarrow> pdict \<Rightarrow> pdict option" where
  "single_component category labels data firmware_info =
     (case data of
        PDict d \<Rightarrow> Some (pset (PStr category) (fields_of labels d) firmware_info)
      | _ \<Rightarrow> Some firmware_info)"

text \<open>
  The devices of a listing, under their names: an element of an array takes the default
  name with its position, a bare object the default name alone.  A name that is a list
  or a dictionary cannot be a key (\<^verbatim>\<open>TypeError\<close>).
\<close>

fun device_loop ::
  "string \<Rightarrow> string \<Rightarrow> (string \<times> string) list \<Rightarrow> nat \<Rightarrow> pyval list \<Rightarrow> pdict \<Rightarrow> pdict option" where
  "device_loop name_field default_name labels i [] devices = Some devices"
| "device_loop name_field default_name labels i (device # rest) devices =
     (case device of
        PDict d \<Rightarrow>
          (let device_name =
                 pget_default d name_field (PStr (default_name @ '' '' @ str_int (int i + 1)))
           in if hashable device_name
              then device_loop name_field default_name labels (Suc i) rest
                     (pset device_name (fields_of labels d) devices)
              else None)
      | _ \<Rightarrow> device_loop name_field default_name labels (Suc i) rest devices)"

definition device_listing ::
  "string \<Rightarrow> string \<Rightarrow> string \<Rightarrow> (string \<times> string) list \<Rightarrow> pyval \<Rightarrow> pdict \<Rightarrow> pdict option" where
  "device_listing category name_field default_name labels data firmware_info =
     (case (case data of
              PList items \<Rightarrow> device_loop name_field default_name labels 0 items []
            | PDict d \<Rightarrow>
                (let device_name = pget_default d name_field (PStr default_name)
                 in if hashable device_name then Some (pset device_name (fields_of labels d) []) else None)
            | _ \<Rightarrow> Some []) of
        None \<Rightarrow> None
      | Some devices \<Rightarrow> Some (set_if_any category devices firmware_info))"

definition get_windows_firmware :: "env \<Rightarrow> pdict" where
  "get_windows_firmware e =
     (let fi1 = fw_powershell e bios_script
                  (single_component ''BIOS/UEFI''
                     [(''Manufacturer'', ''Manufacturer''), (''Name'', ''Name''), (''Version'', ''Version''),
                      (''Release Date'', ''ReleaseDate''), (''Serial Number'', ''SerialNumber'')]) [];
          fi2 = fw_powershell e baseboard_script
                  (single_component ''Motherboard''
                     [(''Manufacturer'', ''Manufacturer''), (''Product'', ''Product''),
                      (''Version'', ''Version''), (''Serial Number'', ''SerialNumber'')]) fi1;
          fi3 = fw_powershell e adapter_script
                  (device_listing ''Network Adapters'' ''Name'' ''Network Adapter''
                     [(''Manufacturer'', ''Manufacturer''), (''Description'', ''Description''),
                      (''Driver Version'', ''DriverVersion'')]) fi2;
          fi4 = fw_powershell e disk_script
                  (device_listing ''Storage Devices'' ''Model'' ''Storage Device''
                     [(''Manufacturer'', ''Manufacturer''), (''Firmware Revision'', ''FirmwareRevision''),
                      (''Serial Number'', ''SerialNumber''), (''Interface Type'', ''InterfaceType'')]) fi3;
          fi5 = fw_powershell e video_script
                  (device_listing ''Graphics Cards'' ''Name'' ''Graphics Card''
                     [(''Driver Version'', ''DriverVersion''), (''Driver Date'', ''DriverDate''),
                      (''Video Processor'', ''VideoProcessor'')]) fi4
      in fi5)"

subsection \<open>Linux\<close>

text \<open>
  \<^verbatim>\<open>line.split(':', 1)[1].strip()\<close>, read only for a line that has a colon.
\<close>

definition after_colon :: "string \<Rightarrow> string" where
  "after_colon line = strip (split_once '':'' line ! 1)"

definition dmi_line :: "string \<Rightarrow> pdict \<Rightarrow> pdict" where
  "dmi_line line bios_info =
     (if contains ''Vendor:'' line then pset (PStr ''Manufacturer'') (PStr (after_colon line)) bios_info
      else if contains ''Version:'' line then pset (PStr ''Version'') (PStr (after_colon line)) bios_info
      else if contains ''Release Date:'' line
      then pset (PStr ''Release Date'') (PStr (after_colon line)) bios_info
      else bios_info)"

definition linux_bios :: "env \<Rightarrow> pdict \<Rightarrow> pdict" where
  "linux_bios e firmware_info =
     (case run e [''dmidecode'', ''-t'', ''bios''] of
        Raises ex \<Rightarrow> firmware_info
      | Completed rc out \<Rightarrow>
          if rc = 0
          then set_if_any ''BIOS/UEFI'' (fold dmi_line (split_chr (CHR 0x0A) out) []) firmware_info
          else firmware_info)"

text \<open>\<^verbatim>\<open>network_devices[current_device]['Driver'] = driver\<close>\<close>

definition set_driver :: "string \<Rightarrow> string \<Rightarrow> pdict \<Rightarrow> pdict" where
  "set_driver current_device driver network_devices =
     (case map_of network_devices (PStr current_device) of
        Some (PDict device) \<Rightarrow>
          pset (PStr current_device) (PDict (pset (PStr ''Driver'') (PStr driver) device)) network_devices
      | _ \<Rightarrow> network_devices)"

fun lspci_loop :: "string list \<Rightarrow> string option \<Rightarrow> pdict \<Rightarrow> pdict" where
  "lspci_loop [] current_device network_devices = network_devices"
| "lspci_loop (line # rest) current_device network_devices =
     (if contains ''Ethernet controller'' line \<or> contains ''Network controller'' line
      then (let device = (if contains '': '' line then split_once '': '' line ! 1 else line)
            in lspci_loop rest (Some device) (pset (PStr device) (PDict []) network_devices))
      else if current_device \<noteq> None \<and> current_device \<noteq> Some []
              \<and> contains ''Kernel driver in use:'' line
      then lspci_loop rest current_device
             (set_driver (the current_device) (after_colon line) network_devices)
      else lspci_loop rest current_device network_devices)"

definition linux_network :: "env \<Rightarrow> pdict \<Rightarrow> pdict" where
  "linux_network e firmware_info =
     (case run e [''lspci'', ''-v''] of
        Raises ex \<Rightarrow> firmware_info
      | Completed rc out \<Rightarrow>
          if rc = 0
          then set_if_any ''Network Devices'' (lspci_loop (split_chr (CHR 0x0A) out) None []) firmware_info
          else firmware_info)"

text \<open>
  The two prefixes that \<^verbatim>\<open>parts[0].startswith\<close> is asked about in the \<^verbatim>\<open>lsblk\<close>
  loop hold characters outside Latin-1, so no string represented here starts with
  them and the two tests are true.
\<close>

definition lsblk_line :: "string \<Rightarrow> pdict \<Rightarrow> pdict" where
  "lsblk_line line storage_devices =
     (let parts = split_ws line
      in if length parts \<ge> 2
         then (let device_name = (if length parts > 1 \<and> parts ! 1 \<noteq> [] then parts ! 1 else parts ! 0);
                   info1 = (if length parts > 2 then pset (PStr ''Serial'') (PStr (parts ! 2)) [] else []);
                   device_info =
                     (if length parts > 3 then pset (PStr ''Firmware Revision'') (PStr (parts ! 3)) info1
                      else info1)
               in if device_info \<noteq> []
                  then pset (PStr device_name) (PDict device_info) storage_devices
                  else storage_devices)
         else storage_devices)"

definition linux_storage :: "env \<Rightarrow> pdict \<Rightarrow> pdict" where
  "linux_storage e firmware_info =
     (case run e [''lsblk'', ''-o'', ''NAME,MODEL,SERIAL,REV''] of
        Raises ex \<Rightarrow> firmware_info
      | Completed rc out \<Rightarrow>
          if rc = 0
          then set_if_any ''Storage Devices'' (fold lsblk_line (drop 1 (stripped_lines out)) [])
                 firmware_info
          else firmware_info)"

definition get_linux_firmware :: "env \<Rightarrow> pdict" where
  "get_linux_firmware e = linux_storage e (linux_network e (linux_bios e []))"

subsection \<open>macOS\<close>

text \<open>
  \<^verbatim>\<open>len(x)\<close>, \<^verbatim>\<open>x[0]\<close> and \<^verbatim>\<open>for y in x\<close> on a decoded value; \<open>None\<close> where
  Python raises (\<^verbatim>\<open>TypeError\<close>, \<^verbatim>\<open>IndexError\<close>, \<^verbatim>\<open>KeyError\<close>).
\<close>

fun py_len :: "pyval \<Rightarrow> nat option" where
  "py_len (PStr s) = Some (length s)"
| "py_len (PList xs) = Some (length xs)"
| "py_len (PDict kvs) = Some (length kvs)"
| "py_len v = None"

fun index0 :: "pyval \<Rightarrow> pyval option" where
  "index0 (PList xs) = (case xs of [] \<Rightarrow> None | x # _ \<Rightarrow> Some x)"
| "index0 (PStr s) = (case s of [] \<Rightarrow> None | c # _ \<Rightarrow> Some (PStr [c]))"
| "index0 (PDict kvs) = map_of (map (\<lambda>(k, v). (key_norm k, v)) kvs) (PInt 0)"
| "index0 v = None"

fun py_iter :: "pyval \<Rightarrow> pyval list option" where
  "py_iter (PList xs) = Some xs"
| "py_iter (PStr s) = Some (map (\<lambda>c. PStr [c]) s)"
| "py_iter (PDict kvs) = Some (map fst kvs)"
| "py_iter v = None"

definition macos_hardware :: "pyval \<Rightarrow> pdict \<Rightarrow> pdict option" where
  "macos_hardware data firmware_info =
     (case data of
        PDict d \<Rightarrow>
          (let hardware_info = pget_default d ''SPHardwareDataType'' (PList [])
           in if truthy hardware_info
              then (case py_len hardware_info of
                      None \<Rightarrow> None
                    | Some n \<Rightarrow>
                        if n > 0
                        then (case index0 hardware_info of
                                Some (PDict hw) \<Rightarrow>
                                  Some (pset (PStr ''System Firmware'')
                                          (fields_of [(''Boot ROM Version'', ''boot_rom_version''),
                                                      (''SMC Version'', ''SMC_version_system''),
                                                      (''Serial Number'', ''serial_number'')] hw)
                                          firmware_info)
                              | _ \<Rightarrow> None)
                        else Some firmware_info)
              else Some firmware_info)
      | _ \<Rightarrow> None)"

fun storage_loop :: "pyval list \<Rightarrow> pdict \<Rightarrow> pdict option" where
  "storage_loop [] storage_devices = Some storage_devices"
| "storage_loop (device # rest) storage_devices =
     (case device of
        PDict d \<Rightarrow>
          (let device_name = pget_default d ''_name'' (PStr ''Unknown Storage'')
           in if hashable device_name
              then storage_loop rest
                     (pset device_name
                        (fields_of [(''Physical Drive'', ''com.apple.diskUtility.partitionMapType''),
                                    (''Media Name'', ''device_model''),
                                    (''Revision'', ''device_revision'')] d)
                        storage_devices)
              else None)
      | _ \<Rightarrow> None)"

definition macos_storage :: "pyval \<Rightarrow> pdict \<Rightarrow> pdict option" where
  "macos_storage data firmware_info =
     (case data of
        PDict d \<Rightarrow>
          (case py_iter (pget_default d ''SPStorageDataType'' (PList [])) of
             None \<Rightarrow> None
           | Some devices \<Rightarrow>
               (case storage_loop devices [] of
                  None \<Rightarrow> None
                | Some storage_devices \<Rightarrow>
                    Some (set_if_any ''Storage Devices'' storage_devices firmware_info)))
      | _ \<Rightarrow> None)"

definition fw_profiler :: "env \<Rightarrow> string \<Rightarrow> (pyval \<Rightarrow> pdict \<Rightarrow> pdict option) \<Rightarrow> pdict \<Rightarrow> pdict" where
  "fw_profiler e data_type handle firmware_info =
     (case run e [''system_profiler'', data_type, ''-json''] of
        Raises ex \<Rightarrow> firmware_info
      | Completed rc out \<Rightarrow>
          if rc = 0
          then (case json_loads e out of
                  Inl ex \<Rightarrow> firmware_info
                | Inr data \<Rightarrow>
                    (case handle data firmware_info of None \<Rightarrow> firmware_info | Some fi \<Rightarrow> fi))
          else firmware_info)"

definition get_macos_firmware :: "env \<Rightarrow> pdict" where
  "get_macos_firmware e =
     fw_profiler e ''SPStorageDataType'' macos_storage
       (fw_profiler e ''SPHardwareDataType'' macos_hardware [])"

subsection \<open>The entry point\<close>

definition get_firmware_info :: "env \<Rightarrow> exn + pyval" where
  "get_firmware_info e =
     (let sys_name = lower (system e)
      in if sys_name = ''windows'' then Inr (PDict (get_windows_firmware e))
         else if sys_name = ''linux'' then Inr (PDict (get_linux_firmware e))
         else if sys_name = ''darwin'' then Inr (PDict (get_macos_firmware e))
         else Inr (PDict [(PStr ''error'', PStr (unsupported sys_name))]))"

section \<open>Concrete runs\<close>

text \<open>
  A host where only \<^verbatim>\<open>zypper\<close> and \<^verbatim>\<open>pip\<close> answer; the package manager lists a
  package whose name is the key the pip probe builds for \<^verbatim>\<open>requests\<close>.
\<close>

definition no_tool :: proc where
  "no_tool = Raises (Exn FileNotFoundError ''No such file or directory'')"

definition env_zypper :: env where
  "env_zypper =
     \<lparr>system = ''Linux'', executable = ''python3'',
      run = (\<lambda>cmd. if cmd = [''zypper'', ''se'', ''--installed-only'']
                   then Completed 0 ''i | Python: requests | 1.0 | package''
                   else if cmd = [''python3'', ''-m'', ''pip'', ''list'']
                   then Completed 0 (''Package  Version'' @ [CHR 0x0A] @ ''-------- -------'' @
                                     [CHR 0x0A] @ ''requests 2.0'')
                   else no_tool),
      json_loads = (\<lambda>s. Inl (Exn JSONDecodeError ''Expecting value'')),
      re_rpm = (\<lambda>s. None), re_portage = (\<lambda>s. None), re_string_tag = (\<lambda>s. None),
      re_macports = (\<lambda>s. None), re_mas = (\<lambda>s. None), re_pid = (\<lambda>s. None),
      re_quoted = (\<lambda>s. None)\<rparr>"

section \<open>The merge policy of the specification\<close>

text \<open>
  These two definitions follow the words of the specification, not the code: a field is
  unset when it is \<^verbatim>\<open>"Unknown"\<close>, and two probe results conflict when a key of both
  carries two different values neither of which is unset.
\<close>

definition spec_unset :: "string \<Rightarrow> bool" where
  "spec_unset v = (v = ''Unknown'')"

definition spec_conflict_free :: "dict \<Rightarrow> dict \<Rightarrow> bool" where
  "spec_conflict_free a b =
     list_all (\<lambda>(k, v). case map_of b k of
                           None \<Rightarrow> True
                         | Some w \<Rightarrow> v = w \<or> spec_unset v \<or> spec_unset w) a"

text \<open>
  A merged Linux result of ten records: six from the package manager, four from pip.
\<close>

definition ten_records :: dict where
  "ten_records =
     [(''bash'', ''5.1''), (''curl'', ''7.81.0''), (''git'', ''2.34''), (''vim'', ''8.2''),
      (''zlib'', ''1.2.11''), (''openssl'', ''3.0.2''),
      (''Python: pip'', ''22.0''), (''Python: requests'', ''2.28''), (''Python: numpy'', ''1.24''),
      (''Python: six'', ''1.16'')]"

text \<open>
  A Windows host: WMI lists Git 2.40, and every PowerShell listing decodes to one object
  that names Git with version 9.9.
\<close>

definition env_windows :: env where
  "env_windows =
     \<lparr>system = ''Windows'', executable = ''python.exe'',
      run = (\<lambda>cmd. if cmd = wmic_cmd
                   then Completed 0 (''Node,Name,Version'' @ [CHR 0x0A] @ ''PC,Git,2.40'')
                   else if take 1 cmd = [''powershell''] then Completed 0 ''{}''
                   else no_tool),
      json_loads = (\<lambda>s. Inr (PDict [(PStr ''DisplayName'', PStr ''Git''),
                                       (PStr ''DisplayVersion'', PStr ''9.9''),
                                       (PStr ''Name'', PStr ''Git''), (PStr ''Version'', PStr ''9.9'')])),
      re_rpm = (\<lambda>s. None), re_portage = (\<lambda>s. None), re_string_tag = (\<lambda>s. None),
      re_macports = (\<lambda>s. None), re_mas = (\<lambda>s. None), re_pid = (\<lambda>s. None),
      re_quoted = (\<lambda>s. None)\<rparr>"

section \<open>The trace of a run\<close>

text \<open>The commands started, in order, and whether a command's outcome is exit status 0.\<close>

fun commands_run :: "event list \<Rightarrow> string list list" where
  "commands_run [] = []"
| "commands_run (Run c # evs) = c # commands_run evs"
| "commands_run (Print s # evs) = commands_run evs"

definition succeeded :: "proc \<Rightarrow> bool" where
  "succeeded p = (case p of Completed rc out \<Rightarrow> rc = 0 | Raises ex \<Rightarrow> False)"

section \<open>Concrete probe outputs\<close>






text \<open>
  Two Linux hosts that differ in the Snap probe alone: on the first the \<^verbatim>\<open>snap\<close>
  executable is missing, on the second it runs and lists no package.
\<close>

definition env_snap_missing :: env where
  "env_snap_missing =
     \<lparr>system = ''Linux'', executable = ''python3'',
      run = (\<lambda>cmd. no_tool),
      json_loads = (\<lambda>s. Inl (Exn JSONDecodeError ''Expecting value'')),
      re_rpm = (\<lambda>s. None), re_portage = (\<lambda>s. None), re_string_tag = (\<lambda>s. None),
      re_macports = (\<lambda>s. None), re_mas = (\<lambda>s. None), re_pid = (\<lambda>s. None),
      re_quoted = (\<lambda>s. None)\<rparr>"

definition env_snap_idle :: env where
  "env_snap_idle =
     env_snap_missing
       \<lparr>run := (\<lambda>cmd. if cmd = [''snap'', ''list'']
                      then Completed 0 ''Name  Version  Rev  Tracking  Publisher  Notes''
                      else no_tool)\<rparr>"

text \<open>A host whose system is none of the three supported ones.\<close>

definition env_freebsd :: env where
  "env_freebsd = env_snap_missing \<lparr>system := ''FreeBSD''\<rparr>"

section \<open>Dictionaries: lookup after update\<close>

lemma map_of_dict_update_rev: "map_of (dict_update d e) = map_of d ++ map_of (rev e)"
  unfolding dict_update_def
proof (induction e arbitrary: d)
  case Nil
  then show ?case by simp
next
  case (Cons x e)
  obtain k v where x: "x = (k, v)" by (cases x)
  show ?case
    by (simp add: x Cons.IH update_conv') (auto simp: map_add_def fun_eq_iff split: option.splits)
qed

lemma map_of_rev_distinct: "distinct (map fst e) \<Longrightarrow> map_of (rev e) = map_of e"
proof (induction e)
  case Nil
  then show ?case by simp
next
  case (Cons x e)
  obtain k v where x: "x = (k, v)" by (cases x)
  from Cons.prems have "k \<notin> fst ` set e" by (simp add: x)
  then have "map_of e k = None" by (simp add: map_of_eq_None_iff)
  with Cons show ?case
    by (auto simp: x map_add_def fun_eq_iff split: option.splits)
qed

lemma map_of_dict_update:
  "distinct (map fst e) \<Longrightarrow> map_of (dict_update d e) = map_of d ++ map_of e"
  by (simp add: map_of_dict_update_rev map_of_rev_distinct)

lemma distinct_dict_update: "distinct (map fst d) \<Longrightarrow> distinct (map fst (dict_update d e))"
  unfolding dict_update_def
  by (induction e arbitrary: d) (auto simp: AList.distinct_update)

lemma distinct_fold:
  assumes "\<And>x d. distinct (map fst d) \<Longrightarrow> distinct (map fst (f x d))"
  shows "distinct (map fst d) \<Longrightarrow> distinct (map fst (fold f xs d))"
  using assms by (induction xs arbitrary: d) auto

section \<open>The probes of the Linux reader return dictionaries\<close>

lemma distinct_dpkg_line: "distinct (map fst d) \<Longrightarrow> distinct (map fst (dpkg_line l d))"
  by (simp add: dpkg_line_def Let_def AList.distinct_update)

lemma distinct_rpm_line: "distinct (map fst d) \<Longrightarrow> distinct (map fst (rpm_line e l d))"
  by (simp add: rpm_line_def AList.distinct_update split: option.splits)

lemma distinct_pacman_line: "distinct (map fst d) \<Longrightarrow> distinct (map fst (pacman_line l d))"
  by (simp add: pacman_line_def Let_def AList.distinct_update)

lemma distinct_apk_line: "distinct (map fst d) \<Longrightarrow> distinct (map fst (apk_line l d))"
  by (simp add: apk_line_def Let_def AList.distinct_update)

lemma distinct_zypper_line: "distinct (map fst d) \<Longrightarrow> distinct (map fst (zypper_line l d))"
  by (simp add: zypper_line_def Let_def AList.distinct_update)

lemma distinct_portage_line: "distinct (map fst d) \<Longrightarrow> distinct (map fst (portage_line e l d))"
  by (simp add: portage_line_def AList.distinct_update split: option.splits)

lemma distinct_parse_pm:
  "distinct (map fst d) \<Longrightarrow> distinct (map fst (parse_pm e pm ls d))"
  by (simp add: parse_pm_def distinct_fold distinct_dpkg_line distinct_rpm_line
      distinct_pacman_line distinct_apk_line distinct_zypper_line distinct_portage_line)

lemma distinct_pm_loop:
  "distinct (map fst d) \<Longrightarrow> distinct (map fst (fst (pm_loop e pms d)))"
proof (induction pms)
  case Nil
  then show ?case by simp
next
  case (Cons pm pms)
  obtain n c where pm: "pm = (n, c)" by (cases pm)
  from Cons show ?case
    by (auto simp: pm distinct_parse_pm split: proc.splits prod.splits)
qed

lemma distinct_linux_software: "distinct (map fst (fst (get_linux_software e)))"
  by (simp add: get_linux_software_def distinct_pm_loop)

lemma distinct_snap_line: "distinct (map fst d) \<Longrightarrow> distinct (map fst (snap_line l d))"
  by (simp add: snap_line_def Let_def AList.distinct_update)

lemma distinct_snap: "distinct (map fst (fst (get_snap_packages e)))"
  by (simp add: get_snap_packages_def distinct_fold distinct_snap_line split: proc.splits)

lemma distinct_flatpak_line: "distinct (map fst d) \<Longrightarrow> distinct (map fst (flatpak_line l d))"
  by (simp add: flatpak_line_def Let_def AList.distinct_update)

lemma distinct_flatpak: "distinct (map fst (fst (get_flatpak_packages e)))"
  by (simp add: get_flatpak_packages_def distinct_fold distinct_flatpak_line split: proc.splits)

lemma distinct_pip_line: "distinct (map fst d) \<Longrightarrow> distinct (map fst (pip_line l d))"
  by (simp add: pip_line_def Let_def AList.distinct_update)

lemma distinct_python: "distinct (map fst (fst (get_python_packages e)))"
  by (simp add: get_python_packages_def distinct_fold distinct_pip_line split: proc.splits)

lemma fst_linux_installed:
  "fst (linux_installed_software e) =
     dict_update (dict_update (dict_update (dict_update [] (fst (get_linux_software e)))
       (fst (get_snap_packages e))) (fst (get_flatpak_packages e))) (fst (get_python_packages e))"
  by (simp add: linux_installed_software_def split: prod.splits)

lemma linux_merge_map:
  "map_of (fst (linux_installed_software e)) =
     map_of (fst (get_linux_software e)) ++ map_of (fst (get_snap_packages e)) ++
     map_of (fst (get_flatpak_packages e)) ++ map_of (fst (get_python_packages e))"
  by (simp add: fst_linux_installed map_of_dict_update distinct_linux_software distinct_snap
      distinct_flatpak distinct_python)

lemma distinct_linux_installed: "distinct (map fst (fst (linux_installed_software e)))"
  by (simp add: fst_linux_installed distinct_dict_update)

section \<open>Evaluating the concrete runs\<close>

lemma zypper_software:
  "fst (get_linux_software env_zypper) = [(''Python: requests'', ''1.0'')]"
  by (simp add: get_linux_software_def package_managers_def env_zypper_def no_tool_def parse_pm_def
      stripped_lines_def strip_def is_space_def split_chr_def zypper_line_def Let_def)

lemma zypper_python:
  "fst (get_python_packages env_zypper) = [(''Python: requests'', ''2.0'')]"
  by (simp add: get_python_packages_def pip_cmd_def env_zypper_def stripped_lines_def
      strip_def is_space_def split_chr_def pip_line_def split_ws_def Let_def)

lemma zypper_snap: "fst (get_snap_packages env_zypper) = []"
  by (simp add: get_snap_packages_def env_zypper_def no_tool_def)

lemma zypper_flatpak: "fst (get_flatpak_packages env_zypper) = []"
  by (simp add: get_flatpak_packages_def flatpak_cmd_def env_zypper_def no_tool_def)

lemma zypper_installed:
  "fst (linux_installed_software env_zypper) = [(''Python: requests'', ''2.0'')]"
  by (simp add: fst_linux_installed zypper_software zypper_snap zypper_flatpak zypper_python
      dict_update_def)

section \<open>C1: the merge of the Linux chain\<close>

text \<open>
  C1, as the specification words it (the first probe's value is kept), fails: on the
  host \<open>env_zypper\<close> the package-manager probe resolves the version \<^verbatim>\<open>1.0\<close> for
  the key \<^verbatim>\<open>Python: requests\<close>, the pip probe, which runs later, resolves \<^verbatim>\<open>2.0\<close>,
  and the merged mapping holds \<^verbatim>\<open>2.0\<close>.
\<close>

theorem first_writer_wins_counterexample:
  "map_of (fst (get_linux_software env_zypper)) ''Python: requests'' = Some ''1.0'' \<and>
   map_of (fst (get_python_packages env_zypper)) ''Python: requests'' = Some ''2.0'' \<and>
   map_of (fst (linux_installed_software env_zypper)) ''Python: requests'' \<noteq> Some ''1.0''"
  by (simp add: zypper_software zypper_python zypper_installed)

text \<open>
  C1 as amended: the merge is last-writer-wins.  The merged mapping of the Linux chain is
  the package-manager result overridden by the Snap result, then the Flatpak result, then
  the pip result: a key holds the value of the last probe in chain order that produced
  it, whether the earlier value was set or \<^verbatim>\<open>Unknown\<close>.
\<close>

theorem linux_merge_last_writer_wins:
  "map_of (fst (linux_installed_software e)) =
     map_of (fst (get_linux_software e)) ++ map_of (fst (get_snap_packages e)) ++
     map_of (fst (get_flatpak_packages e)) ++ map_of (fst (get_python_packages e))"
  by (rule linux_merge_map)

theorem linux_merge_last_writer_wins_witness:
  "map_of (fst (linux_installed_software env_zypper)) ''Python: requests'' = Some ''2.0''"
  using linux_merge_last_writer_wins [of env_zypper]
  by (simp add: zypper_software zypper_python zypper_snap zypper_flatpak)

section \<open>C6: the order of two merges\<close>

text \<open>
  C6, as the specification words it, fails: the two results below have no conflict in
  the specification's sense (one of the two versions is the unset \<^verbatim>\<open>Unknown\<close>), and
  the two orders of merging them give different mappings.
\<close>

theorem merge_order_counterexample:
  "spec_conflict_free [(''curl'', ''Unknown'')] [(''curl'', ''7.81'')] \<and>
   map_of (dict_update (dict_update [] [(''curl'', ''Unknown'')]) [(''curl'', ''7.81'')]) \<noteq>
   map_of (dict_update (dict_update [] [(''curl'', ''7.81'')]) [(''curl'', ''Unknown'')])"
proof
  show "spec_conflict_free [(''curl'', ''Unknown'')] [(''curl'', ''7.81'')]"
    by (simp add: spec_conflict_free_def spec_unset_def)
  show "map_of (dict_update (dict_update [] [(''curl'', ''Unknown'')]) [(''curl'', ''7.81'')]) \<noteq>
        map_of (dict_update (dict_update [] [(''curl'', ''7.81'')]) [(''curl'', ''Unknown'')])"
  proof
    assume "map_of (dict_update (dict_update [] [(''curl'', ''Unknown'')]) [(''curl'', ''7.81'')]) =
            map_of (dict_update (dict_update [] [(''curl'', ''7.81'')]) [(''curl'', ''Unknown'')])"
    then have "map_of (dict_update (dict_update [] [(''curl'', ''Unknown'')]) [(''curl'', ''7.81'')]) ''curl'' =
               map_of (dict_update (dict_update [] [(''curl'', ''7.81'')]) [(''curl'', ''Unknown'')]) ''curl''"
      by (rule fun_cong)
    then show False by (simp add: dict_update_def)
  qed
qed

text \<open>
  C6 as amended: two probe results that agree on every key they share (the same value,
  \<^verbatim>\<open>Unknown\<close> being a value like any other) merge to the same mapping in either order.
\<close>

theorem merge_order_independent:
  assumes "distinct (map fst a)" and "distinct (map fst b)"
    and agree: "\<And>k v w. map_of a k = Some v \<Longrightarrow> map_of b k = Some w \<Longrightarrow> v = w"
  shows "map_of (dict_update (dict_update [] a) b) = map_of (dict_update (dict_update [] b) a)"
proof -
  have "map_of a ++ map_of b = map_of b ++ map_of a"
  proof (rule ext)
    fix k
    show "(map_of a ++ map_of b) k = (map_of b ++ map_of a) k"
    proof (cases "map_of a k")
      case None
      then show ?thesis by (simp add: map_add_def split: option.splits)
    next
      case (Some v)
      note av = this
      show ?thesis
      proof (cases "map_of b k")
        case None
        with av show ?thesis by (simp add: map_add_def)
      next
        case (Some w)
        with av agree have "v = w" by blast
        with av Some show ?thesis by (simp add: map_add_def)
      qed
    qed
  qed
  with assms(1,2) show ?thesis by (simp add: map_of_dict_update)
qed

theorem merge_order_independent_witness:
  "map_of (dict_update (dict_update [] [(''curl'', ''7.81''), (''vim'', ''9.0'')]) [(''curl'', ''7.81'')]) =
   map_of (dict_update (dict_update [] [(''curl'', ''7.81'')]) [(''curl'', ''7.81''), (''vim'', ''9.0'')])"
proof (rule merge_order_independent)
  show "distinct (map fst [(''curl'', ''7.81''), (''vim'', ''9.0'')])" by simp
  show "distinct (map fst [(''curl'', ''7.81'')])" by simp
  fix k v w
  assume "map_of [(''curl'', ''7.81''), (''vim'', ''9.0'')] k = Some v"
    and "map_of [(''curl'', ''7.81'')] k = Some w"
  then show "v = w" by (cases "k = ''curl''") simp_all
qed

section \<open>C9: the summary counts\<close>

lemma count_keys_card:
  assumes "distinct (map fst software)"
  shows "count_keys P software = card {k \<in> dom (map_of software). P k}"
proof -
  have "{k \<in> dom (map_of software). P k} = {x. P x} \<inter> set (map fst software)"
    by (auto simp: dom_map_of_conv_image_fst)
  moreover have "length (filter P (map fst software)) = card ({x. P x} \<inter> set (map fst software))"
    using assms by (rule distinct_length_filter)
  ultimately show ?thesis
    unfolding count_keys_def dict_keys_def by (simp only:)
qed

lemma length_card_dom:
  "distinct (map fst software) \<Longrightarrow> length software = card (dom (map_of software))"
  using distinct_card [of "map fst software"] by (simp add: dom_map_of_conv_image_fst)

lemma linux_partition:
  "count_keys (prefix ''Python:'') software
   + count_keys (\<lambda>k. \<not> (prefix ''Python:'' k \<or> prefix ''Snap:'' k \<or> prefix ''Flatpak:'' k)) software
   + count_keys (prefix ''Snap:'') software + count_keys (prefix ''Flatpak:'') software
   = length software"
  unfolding count_keys_def dict_keys_def
proof (induction software)
  case Nil
  then show ?case by simp
next
  case (Cons x software)
  have excl: "\<not> (prefix ''Python:'' (fst x) \<and> prefix ''Snap:'' (fst x))"
    "\<not> (prefix ''Python:'' (fst x) \<and> prefix ''Flatpak:'' (fst x))"
    "\<not> (prefix ''Snap:'' (fst x) \<and> prefix ''Flatpak:'' (fst x))"
    by (auto simp: prefix_def)
  with Cons show ?case by auto
qed

text \<open>
  C9: for every software mapping, the total is the number of its records, each category
  count of the Linux, Windows and macOS summaries is the number of records whose key has
  the prefix (or lacks the prefixes) of the category, and in the Linux summary the four
  categories add up to the total.
\<close>

theorem summary_counts:
  assumes "distinct (map fst software)"
  shows "fst (linux_summary software) =
           [(''total_count'', card (dom (map_of software))),
            (''python_packages'', card {k \<in> dom (map_of software). prefix ''Python:'' k}),
            (''system_packages'',
               card {k \<in> dom (map_of software).
                       \<not> (prefix ''Python:'' k \<or> prefix ''Snap:'' k \<or> prefix ''Flatpak:'' k)}),
            (''snap_packages'', card {k \<in> dom (map_of software). prefix ''Snap:'' k}),
            (''flatpak_packages'', card {k \<in> dom (map_of software). prefix ''Flatpak:'' k})] \<and>
         card {k \<in> dom (map_of software). prefix ''Python:'' k}
           + card {k \<in> dom (map_of software).
                     \<not> (prefix ''Python:'' k \<or> prefix ''Snap:'' k \<or> prefix ''Flatpak:'' k)}
           + card {k \<in> dom (map_of software). prefix ''Snap:'' k}
           + card {k \<in> dom (map_of software). prefix ''Flatpak:'' k}
           = card (dom (map_of software)) \<and>
         fst (windows_summary software) =
           [(''total_count'', card (dom (map_of software))),
            (''python_packages'', card {k \<in> dom (map_of software). prefix ''Python:'' k}),
            (''system_software'', card {k \<in> dom (map_of software). \<not> prefix ''Python:'' k}),
            (''store_apps'', card {k \<in> dom (map_of software). prefix ''Store:'' k})] \<and>
         fst (macos_summary software) =
           [(''total_count'', card (dom (map_of software))),
            (''python_packages'', card {k \<in> dom (map_of software). prefix ''Python:'' k}),
            (''system_applications'',
               card {k \<in> dom (map_of software).
                       \<not> (prefix ''Python:'' k \<or> prefix ''Homebrew:'' k \<or> prefix ''MacPorts:'' k
                          \<or> prefix ''App Store:'' k)}),
            (''homebrew_packages'', card {k \<in> dom (map_of software). prefix ''Homebrew:'' k}),
            (''macports_packages'', card {k \<in> dom (map_of software). prefix ''MacPorts:'' k}),
            (''app_store_apps'', card {k \<in> dom (map_of software). prefix ''App Store:'' k})] \<and>
         snd (linux_summary software) = software"
proof -
  note c = count_keys_card [OF assms, symmetric] length_card_dom [OF assms, symmetric]
  have "fst (linux_summary software) =
           [(''total_count'', card (dom (map_of software))),
            (''python_packages'', card {k \<in> dom (map_of software). prefix ''Python:'' k}),
            (''system_packages'',
               card {k \<in> dom (map_of software).
                       \<not> (prefix ''Python:'' k \<or> prefix ''Snap:'' k \<or> prefix ''Flatpak:'' k)}),
            (''snap_packages'', card {k \<in> dom (map_of software). prefix ''Snap:'' k}),
            (''flatpak_packages'', card {k \<in> dom (map_of software). prefix ''Flatpak:'' k})]"
    unfolding c by (simp add: linux_summary_def)
  moreover have "card {k \<in> dom (map_of software). prefix ''Python:'' k}
           + card {k \<in> dom (map_of software).
                     \<not> (prefix ''Python:'' k \<or> prefix ''Snap:'' k \<or> prefix ''Flatpak:'' k)}
           + card {k \<in> dom (map_of software). prefix ''Snap:'' k}
           + card {k \<in> dom (map_of software). prefix ''Flatpak:'' k}
           = card (dom (map_of software))"
    unfolding c by (rule linux_partition)
  moreover have "fst (windows_summary software) =
           [(''total_count'', card (dom (map_of software))),
            (''python_packages'', card {k \<in> dom (map_of software). prefix ''Python:'' k}),
            (''system_software'', card {k \<in> dom (map_of software). \<not> prefix ''Python:'' k}),
            (''store_apps'', card {k \<in> dom (map_of software). prefix ''Store:'' k})]"
    unfolding c by (simp add: windows_summary_def)
  moreover have "fst (macos_summary software) =
           [(''total_count'', card (dom (map_of software))),
            (''python_packages'', card {k \<in> dom (map_of software). prefix ''Python:'' k}),
            (''system_applications'',
               card {k \<in> dom (map_of software).
                       \<not> (prefix ''Python:'' k \<or> prefix ''Homebrew:'' k \<or> prefix ''MacPorts:'' k
                          \<or> prefix ''App Store:'' k)}),
            (''homebrew_packages'', card {k \<in> dom (map_of software). prefix ''Homebrew:'' k}),
            (''macports_packages'', card {k \<in> dom (map_of software). prefix ''MacPorts:'' k}),
            (''app_store_apps'', card {k \<in> dom (map_of software). prefix ''App Store:'' k})]"
    unfolding c by (simp add: macos_summary_def)
  moreover have "snd (linux_summary software) = software"
    by (simp add: linux_summary_def)
  ultimately show ?thesis by blast
qed

lemma ten_records_distinct: "distinct (map fst ten_records)"
  by (simp add: ten_records_def)

lemma ten_records_summary:
  "fst (linux_summary ten_records) =
     [(''total_count'', 10), (''python_packages'', 4), (''system_packages'', 6),
      (''snap_packages'', 0), (''flatpak_packages'', 0)]"
  by (simp add: linux_summary_def count_keys_def dict_keys_def ten_records_def)

text \<open>
  The scenario of the specification: ten records, six of the package manager and four of
  pip, give the total 10 and the counts 6 and 4.
\<close>

theorem summary_counts_witness:
  "card (dom (map_of ten_records)) = 10 \<and>
   card {k \<in> dom (map_of ten_records). prefix ''Python:'' k} = 4 \<and>
   card {k \<in> dom (map_of ten_records).
           \<not> (prefix ''Python:'' k \<or> prefix ''Snap:'' k \<or> prefix ''Flatpak:'' k)} = 6"
  using summary_counts [OF ten_records_distinct] by (simp add: ten_records_summary)

section \<open>C10: the later Windows methods keep what is recorded\<close>

lemma update_other_key: "k' \<noteq> k \<Longrightarrow> map_of (AList.update k' v' sl) k = map_of sl k"
  by (simp add: update_conv')

lemma insert_absent_keeps:
  assumes "map_of sl k = Some v" and "\<not> dict_has sl k'"
  shows "map_of (AList.update k' v' sl) k = Some v"
proof -
  from assms have "k' \<noteq> k" by (auto simp: dict_has_def)
  with assms(1) show ?thesis by (simp add: update_other_key)
qed

lemma registry_item_keeps:
  "map_of sl k = Some v \<Longrightarrow> map_of (registry_item item sl) k = Some v"
  by (auto simp: registry_item_def Let_def insert_absent_keeps split: pyval.splits)

lemma package_item_keeps:
  "map_of sl k = Some v \<Longrightarrow> map_of (package_item item sl) k = Some v"
  by (auto simp: package_item_def Let_def insert_absent_keeps split: pyval.splits)

lemma appx_item_keeps:
  "map_of sl k = Some v \<Longrightarrow> map_of (appx_item item sl) k = Some v"
  by (auto simp: appx_item_def Let_def insert_absent_keeps split: pyval.splits)

lemma fold_keeps:
  assumes "\<And>x d. map_of d k = Some v \<Longrightarrow> map_of (f x d) k = Some v"
  shows "map_of d k = Some v \<Longrightarrow> map_of (fold f xs d) k = Some v"
  using assms by (induction xs arbitrary: d) auto

lemma json_items_keeps:
  assumes "\<And>x d. map_of d k = Some v \<Longrightarrow> map_of (item_fn x d) k = Some v"
    and "map_of sl k = Some v"
  shows "map_of (json_items item_fn data sl) k = Some v"
proof (cases data)
  case (PList items)
  with assms fold_keeps [of k v item_fn sl items] show ?thesis by (simp add: json_items_def)
next
  case (PDict d)
  with assms show ?thesis by (simp add: json_items_def)
qed (use assms in \<open>simp_all add: json_items_def\<close>)

lemma powershell_scan_keeps:
  assumes "\<And>x d. map_of d k = Some v \<Longrightarrow> map_of (item_fn x d) k = Some v"
    and "map_of sl k = Some v"
  shows "map_of (fst (powershell_scan e announce script pf sf item_fn sl)) k = Some v"
  using assms json_items_keeps [of k v item_fn sl]
  by (simp add: powershell_scan_def Let_def split: proc.splits sum.splits)

lemma registry_scan_keeps:
  "map_of sl k = Some v \<Longrightarrow> map_of (fst (registry_scan e path sl)) k = Some v"
  unfolding registry_scan_def by (rule powershell_scan_keeps) (simp_all add: registry_item_keeps)

lemma registry_loop_keeps:
  "map_of sl k = Some v \<Longrightarrow> map_of (fst (registry_loop e paths sl)) k = Some v"
proof (induction paths arbitrary: sl)
  case Nil
  then show ?case by simp
next
  case (Cons path paths)
  obtain sl1 ev1 where s1: "registry_scan e path sl = (sl1, ev1)" by (cases "registry_scan e path sl")
  with registry_scan_keeps [OF Cons.prems, of e path] have "map_of sl1 k = Some v" by simp
  from Cons.IH [OF this] s1 show ?case by (auto split: prod.splits)
qed

lemma package_scan_keeps:
  "map_of sl k = Some v \<Longrightarrow> map_of (fst (package_scan e sl)) k = Some v"
  unfolding package_scan_def by (rule powershell_scan_keeps) (simp_all add: package_item_keeps)

lemma appx_scan_keeps:
  "map_of sl k = Some v \<Longrightarrow> map_of (fst (appx_scan e sl)) k = Some v"
  unfolding appx_scan_def by (rule powershell_scan_keeps) (simp_all add: appx_item_keeps)

lemma fst_get_windows_software:
  "fst (get_windows_software e) =
     fst (appx_scan e (fst (package_scan e (fst (registry_loop e registry_paths (fst (wmic_scan e [])))))))"
  by (simp add: get_windows_software_def split: prod.splits)

text \<open>
  C10: a display name that is in the software list keeps its version through the
  registry scans, the PackageManagement scan and the AppX scan, whatever these methods
  read; so a name recorded by the WMI method, the registry or PackageManagement holds its
  first recorded version in the result of \<^verbatim>\<open>get_windows_software\<close>.
\<close>

theorem windows_first_version_kept:
  "(map_of sl k = Some v \<longrightarrow>
      map_of (fst (registry_loop e paths sl)) k = Some v \<and>
      map_of (fst (package_scan e sl)) k = Some v \<and>
      map_of (fst (appx_scan e sl)) k = Some v) \<and>
   (map_of (fst (wmic_scan e [])) k = Some v \<longrightarrow> map_of (fst (get_windows_software e)) k = Some v) \<and>
   (map_of (fst (registry_loop e registry_paths (fst (wmic_scan e [])))) k = Some v \<longrightarrow>
      map_of (fst (get_windows_software e)) k = Some v)"
  by (simp add: fst_get_windows_software registry_loop_keeps package_scan_keeps appx_scan_keeps)

lemma windows_wmic: "fst (wmic_scan env_windows []) = [(''Git'', ''2.40'')]"
  by (simp add: wmic_scan_def env_windows_def wmic_cmd_def stripped_lines_def strip_def is_space_def
      split_chr_def wmic_line_def Let_def)

theorem windows_first_version_kept_witness:
  "map_of (fst (wmic_scan env_windows [])) ''Git'' = Some ''2.40'' \<and>
   map_of (fst (get_windows_software env_windows)) ''Git'' = Some ''2.40''"
  using windows_first_version_kept [of "[]" "''Git''" "''2.40''" env_windows "[]"]
  by (simp add: windows_wmic)

section \<open>C5: which probes of the Linux chain run\<close>

lemma commands_run_append: "commands_run (xs @ ys) = commands_run xs @ commands_run ys"
  by (induction xs rule: commands_run.induct) simp_all

lemma commands_pm_loop:
  "commands_run (snd (pm_loop e pms sl)) =
     takeWhile (\<lambda>c. \<not> succeeded (run e c)) (map snd pms) @
     take 1 (dropWhile (\<lambda>c. \<not> succeeded (run e c)) (map snd pms))"
proof (induction pms)
  case Nil
  then show ?case by simp
next
  case (Cons pm pms)
  obtain n c where pm: "pm = (n, c)" by (cases pm)
  show ?case
  proof (cases "run e c")
    case (Raises ex)
    with Cons show ?thesis by (auto simp: pm succeeded_def split: prod.splits)
  next
    case (Completed rc out)
    with Cons show ?thesis by (auto simp: pm succeeded_def split: prod.splits)
  qed
qed

lemma commands_snap: "commands_run (snd (get_snap_packages e)) = [[''snap'', ''list'']]"
  by (simp add: get_snap_packages_def split: proc.splits)

lemma commands_flatpak: "commands_run (snd (get_flatpak_packages e)) = [flatpak_cmd]"
  by (simp add: get_flatpak_packages_def split: proc.splits)

lemma commands_python: "commands_run (snd (get_python_packages e)) = [pip_cmd e]"
  by (simp add: get_python_packages_def split: proc.splits)

lemma snd_linux_installed:
  "snd (linux_installed_software e) =
     [Print ''Detecting software on Linux...''] @ snd (get_linux_software e) @
     snd (get_snap_packages e) @ snd (get_flatpak_packages e) @ snd (get_python_packages e)"
  by (simp add: linux_installed_software_def split: prod.splits)

text \<open>
  C5: in every run the Linux collector starts the package managers in their order up to
  and including the first whose exit status is 0 and none after it, then the Snap, the
  Flatpak and the pip probe, whatever the package managers did; and the returned
  mapping is the package-manager result updated with the three others.
\<close>

theorem linux_chain_policy:
  "commands_run (snd (linux_installed_software e)) =
     takeWhile (\<lambda>c. \<not> succeeded (run e c)) (map snd package_managers) @
     take 1 (dropWhile (\<lambda>c. \<not> succeeded (run e c)) (map snd package_managers)) @
     [[''snap'', ''list''], flatpak_cmd, pip_cmd e] \<and>
   map_of (fst (linux_installed_software e)) =
     map_of (fst (get_linux_software e)) ++ map_of (fst (get_snap_packages e)) ++
     map_of (fst (get_flatpak_packages e)) ++ map_of (fst (get_python_packages e))"
  by (simp add: snd_linux_installed commands_run_append commands_pm_loop get_linux_software_def
      commands_snap commands_flatpak commands_python linux_merge_map [unfolded get_linux_software_def])

theorem linux_chain_policy_witness:
  "commands_run (snd (linux_installed_software env_zypper)) =
     [[''dpkg'', ''-l''], [''rpm'', ''-qa''], [''pacman'', ''-Q''], [''apk'', ''list'', ''--installed''],
      [''zypper'', ''se'', ''--installed-only''],
      [''snap'', ''list''], [''flatpak'', ''list'', ''--app'', ''--columns=name,version''],
      [''python3'', ''-m'', ''pip'', ''list'']]"
  using linux_chain_policy [of env_zypper]
  by (simp add: package_managers_def succeeded_def env_zypper_def no_tool_def flatpak_cmd_def pip_cmd_def)

section \<open>Dictionaries of Python values\<close>

lemma key_norm_PStr [simp]: "key_norm k' = PStr k \<longleftrightarrow> k' = PStr k"
  by (cases k') auto


lemma key_norm_PStr' [simp]: "PStr k = key_norm k' \<longleftrightarrow> k' = PStr k"
  by (cases k') auto


lemma length_pset_le: "length (pset k v d) \<le> Suc (length d)"
  by (induction d) auto

lemma map_fst_pset_new:
  "key_norm k \<notin> set (map (key_norm \<circ> fst) d) \<Longrightarrow> map fst (pset k v d) = map fst d @ [k]"
  by (induction d) auto

section \<open>Decimal text of an integer\<close>





lemma str_nat_nonempty: "str_nat n \<noteq> []"
  by (simp add: str_nat.simps [of n])








section \<open>C7: a listening-socket line\<close>





subsection \<open>The Linux listing: the last line of a key is the one stored\<close>







subsection \<open>The Windows listing: the first line of a key is the one stored\<close>








subsection \<open>The dictionary of the listing in the collector's result\<close>



subsection \<open>The claim\<close>











section \<open>C8: one object or an array of objects\<close>

lemma pset_new: "key_norm k \<notin> set (map (key_norm \<circ> fst) d) \<Longrightarrow> pset k v d = d @ [(k, v)]"
  by (induction d) auto

lemma update_new: "\<not> dict_has sl k \<Longrightarrow> AList.update k v sl = sl @ [(k, v)]"
  by (induction sl) (auto simp: dict_has_def split: if_splits)

lemma strip_Nil: "strip [] = []"
  by (simp add: strip_def)

lemma length_update_le: "length (AList.update k v al) \<le> Suc (length al)"
  by (induction al) auto

subsection \<open>The TCP listeners\<close>

lemma tcp_object:
  "tcp_conn (PDict d) [] =
     (if truthy (pget d ''LocalPort'')
      then [(PStr (''TCP:'' @ py_str (pget d ''LocalPort'')),
             PDict [(PStr ''Protocol'', PStr ''TCP''), (PStr ''Port'', pget d ''LocalPort''),
                    (PStr ''Local Address'', pget_default d ''LocalAddress'' (PStr ''0.0.0.0'')),
                    (PStr ''State'', PStr ''LISTENING''), (PStr ''PID'', pget d ''OwningProcess''),
                    (PStr ''Process'', PStr ''Unknown'')])]
      else [])"
  by (simp add: tcp_conn_def Let_def port_entry_def)

lemma tcp_conn_length: "length (tcp_conn conn acc) \<le> Suc (length acc)"
  using length_pset_le [of _ _ acc]
  by (auto simp: tcp_conn_def Let_def le_Suc_eq split: pyval.splits)

lemma fold_tcp_conn_length: "length (fold tcp_conn conns acc) \<le> length acc + length conns"
proof (induction conns arbitrary: acc)
  case Nil
  then show ?case by simp
next
  case (Cons c conns)
  have "length (fold tcp_conn conns (tcp_conn c acc)) \<le> length (tcp_conn c acc) + length conns"
    by (rule Cons.IH)
  with tcp_conn_length [of c acc] show ?case by simp
qed

lemma tcp_conn_new:
  assumes "truthy (pget d ''LocalPort'')"
    and "''TCP:'' @ py_str (pget d ''LocalPort'') \<notin> set ks" and "map fst acc = map PStr ks"
  shows "tcp_conn (PDict d) acc = acc @ tcp_conn (PDict d) []"
proof -
  let ?k = "PStr (''TCP:'' @ py_str (pget d ''LocalPort''))"
  have "map (key_norm \<circ> fst) acc = map key_norm (map fst acc)" by simp
  also have "\<dots> = map PStr ks" by (simp add: assms(3))
  finally have "key_norm ?k \<notin> set (map (key_norm \<circ> fst) acc)"
    using assms(2) by auto
  then have "pset ?k v acc = acc @ [(?k, v)]" for v
    by (rule pset_new)
  with assms(1) show ?thesis by (simp add: tcp_conn_def Let_def)
qed

lemma fold_tcp_conn_records:
  assumes "\<forall>d \<in> set ds. truthy (pget d ''LocalPort'')"
    and "distinct (ks @ map (\<lambda>d. ''TCP:'' @ py_str (pget d ''LocalPort'')) ds)"
    and "map fst acc = map PStr ks"
  shows "fold tcp_conn (map PDict ds) acc = acc @ concat (map (\<lambda>d. tcp_conn (PDict d) []) ds)"
  using assms
proof (induction ds arbitrary: acc ks)
  case Nil
  then show ?case by simp
next
  case (Cons d ds)
  let ?k = "''TCP:'' @ py_str (pget d ''LocalPort'')"
  from Cons.prems(1) have t: "truthy (pget d ''LocalPort'')" by simp
  from Cons.prems(2) have new: "?k \<notin> set ks" by auto
  have step: "tcp_conn (PDict d) acc = acc @ tcp_conn (PDict d) []"
    using t new Cons.prems(3) by (rule tcp_conn_new)
  have keys: "map fst (tcp_conn (PDict d) acc) = map PStr (ks @ [?k])"
    using t Cons.prems(3) by (simp add: step tcp_object)
  have "fold tcp_conn (map PDict ds) (tcp_conn (PDict d) acc) =
          tcp_conn (PDict d) acc @ concat (map (\<lambda>d. tcp_conn (PDict d) []) ds)"
  proof (rule Cons.IH [OF _ _ keys])
    show "\<forall>d \<in> set ds. truthy (pget d ''LocalPort'')"
      using Cons.prems(1) by simp
    show "distinct ((ks @ [?k]) @ map (\<lambda>d. ''TCP:'' @ py_str (pget d ''LocalPort'')) ds)"
      using Cons.prems(2) by auto
  qed
  then show ?case by (simp add: step)
qed

subsection \<open>The software listings\<close>

lemma registry_object:
  "registry_item (PDict d) sl =
     (case pget d ''DisplayName'' of
        PStr name \<Rightarrow>
          if strip name = [] \<or> dict_has sl (strip name) then sl
          else sl @ [(strip name,
                      case pget d ''DisplayVersion'' of
                        PStr v \<Rightarrow> if v = [] then ''Unknown'' else strip v
                      | _ \<Rightarrow> ''Unknown'')]
      | _ \<Rightarrow> sl)"
  by (auto simp: registry_item_def version_text_def Let_def update_new strip_Nil split: pyval.splits)

lemma package_object:
  "package_item (PDict d) sl =
     (case pget d ''Name'' of
        PStr name \<Rightarrow>
          (let source = pget_default d ''Source'' (PStr []);
               display_name =
                 (if truthy source then strip name @ '' ('' @ py_str source @ '')'' else strip name)
           in if name = [] \<or> dict_has sl display_name then sl
              else sl @ [(display_name,
                          case pget d ''Version'' of
                            PStr v \<Rightarrow> if v = [] then ''Unknown'' else strip v
                          | _ \<Rightarrow> ''Unknown'')])
      | _ \<Rightarrow> sl)"
  by (auto simp: package_item_def version_text_def Let_def update_new split: pyval.splits)

lemma appx_object:
  "appx_item (PDict d) sl =
     (case pget d ''Name'' of
        PStr name \<Rightarrow>
          if name = [] \<or> dict_has sl (''Store: '' @ strip name) then sl
          else sl @ [(''Store: '' @ strip name,
                      case pget d ''Version'' of
                        PStr v \<Rightarrow> if v = [] then ''Unknown'' else strip v
                      | _ \<Rightarrow> ''Unknown'')]
      | _ \<Rightarrow> sl)"
  by (auto simp: appx_item_def version_text_def Let_def update_new split: pyval.splits)

subsection \<open>The firmware listings\<close>

lemma device_loop_records:
  assumes "\<forall>(j, d) \<in> set (enumerate i ds).
             hashable (pget_default d name_field (PStr (default_name @ '' '' @ str_int (int j + 1))))"
    and "distinct (map (key_norm \<circ> fst) devices @
           map (\<lambda>(j, d). key_norm (pget_default d name_field
                                     (PStr (default_name @ '' '' @ str_int (int j + 1)))))
             (enumerate i ds))"
  shows "device_loop name_field default_name labels i (map PDict ds) devices =
           Some (devices @
             map (\<lambda>(j, d). (pget_default d name_field (PStr (default_name @ '' '' @ str_int (int j + 1))),
                              fields_of labels d))
               (enumerate i ds))"
  using assms
proof (induction ds arbitrary: i devices)
  case Nil
  then show ?case by simp
next
  case (Cons d ds)
  let ?n = "pget_default d name_field (PStr (default_name @ '' '' @ str_int (int i + 1)))"
  from Cons.prems(1) have h: "hashable ?n" by simp
  from Cons.prems(2) have "key_norm ?n \<notin> set (map (key_norm \<circ> fst) devices)" by auto
  then have step: "pset ?n (fields_of labels d) devices = devices @ [(?n, fields_of labels d)]"
    by (rule pset_new)
  have "device_loop name_field default_name labels (Suc i) (map PDict ds)
          (devices @ [(?n, fields_of labels d)]) =
        Some ((devices @ [(?n, fields_of labels d)]) @
          map (\<lambda>(j, d). (pget_default d name_field (PStr (default_name @ '' '' @ str_int (int j + 1))),
                           fields_of labels d))
            (enumerate (Suc i) ds))"
  proof (rule Cons.IH)
    show "\<forall>(j, d) \<in> set (enumerate (Suc i) ds).
            hashable (pget_default d name_field (PStr (default_name @ '' '' @ str_int (int j + 1))))"
      using Cons.prems(1) by simp
    show "distinct (map (key_norm \<circ> fst) (devices @ [(?n, fields_of labels d)]) @
            map (\<lambda>(j, d). key_norm (pget_default d name_field
                                      (PStr (default_name @ '' '' @ str_int (int j + 1)))))
              (enumerate (Suc i) ds))"
      using Cons.prems(2) by (auto simp: comp_def)
  qed
  with h step show ?case by (simp add: Let_def)
qed

lemma device_loop_length:
  "device_loop name_field default_name labels i items devices = Some devices' \<Longrightarrow>
   length devices' \<le> length devices + length items"
proof (induction items arbitrary: i devices)
  case Nil
  then show ?case by simp
next
  case (Cons c items)
  show ?case
  proof (cases c)
    case (PDict d)
    let ?n = "pget_default d name_field (PStr (default_name @ '' '' @ str_int (int i + 1)))"
    from Cons.prems PDict have h: "hashable ?n"
      by (simp add: Let_def split: if_splits)
    with Cons.prems PDict
    have "device_loop name_field default_name labels (Suc i) items
            (pset ?n (fields_of labels d) devices) = Some devices'"
      by (simp add: Let_def)
    then have "length devices' \<le> length (pset ?n (fields_of labels d) devices) + length items"
      by (rule Cons.IH)
    with length_pset_le [of ?n "fields_of labels d" devices] show ?thesis by simp
  next
    case PNone
    with Cons.prems have "device_loop name_field default_name labels (Suc i) items devices = Some devices'"
      by simp
    then have "length devices' \<le> length devices + length items" by (rule Cons.IH)
    then show ?thesis by simp
  next
    case (PBool b)
    with Cons.prems have "device_loop name_field default_name labels (Suc i) items devices = Some devices'"
      by simp
    then have "length devices' \<le> length devices + length items" by (rule Cons.IH)
    then show ?thesis by simp
  next
    case (PInt n)
    with Cons.prems have "device_loop name_field default_name labels (Suc i) items devices = Some devices'"
      by simp
    then have "length devices' \<le> length devices + length items" by (rule Cons.IH)
    then show ?thesis by simp
  next
    case (PStr s)
    with Cons.prems have "device_loop name_field default_name labels (Suc i) items devices = Some devices'"
      by simp
    then have "length devices' \<le> length devices + length items" by (rule Cons.IH)
    then show ?thesis by simp
  next
    case (PList xs)
    with Cons.prems have "device_loop name_field default_name labels (Suc i) items devices = Some devices'"
      by simp
    then have "length devices' \<le> length devices + length items" by (rule Cons.IH)
    then show ?thesis by simp
  qed
qed

text \<open>
  C8, as the specification words it, fails: a bare object without a \<^verbatim>\<open>LocalPort\<close>
  gives no record, an array of two objects with the same port gives one, and the BIOS
  probe stores nothing for an array of one object.
\<close>

theorem json_shape_counterexample:
  "tcp_listeners_of (PDict [(PStr ''LocalAddress'', PStr ''0.0.0.0'')]) = [] \<and>
   length (tcp_listeners_of
     (PList [PDict [(PStr ''LocalAddress'', PStr ''0.0.0.0''), (PStr ''LocalPort'', PInt 80)],
             PDict [(PStr ''LocalAddress'', PStr ''::''), (PStr ''LocalPort'', PInt 80)]])) = 1 \<and>
   single_component ''BIOS/UEFI'' [(''Manufacturer'', ''Manufacturer''), (''Name'', ''Name'')]
     (PList [PDict [(PStr ''Manufacturer'', PStr ''Dell''), (PStr ''Name'', PStr ''BIOS'')]]) [] = Some []"
  by (simp add: tcp_listeners_of_def tcp_conn_def pget_def pget_default_def py_str_def Let_def
      single_component_def)

text \<open>
  C8 as amended, probe by probe.

  \<^bold>\<open>The TCP listeners.\<close>  A bare object gives one record when its \<^verbatim>\<open>LocalPort\<close> is
  truthy and none otherwise.  The record is stored under \<^verbatim>\<open>TCP:<LocalPort>\<close> and holds
  the protocol \<^verbatim>\<open>TCP\<close>, the port, the address (\<^verbatim>\<open>0.0.0.0\<close> when the object has
  none), the state \<^verbatim>\<open>LISTENING\<close>, the owning process (\<^verbatim>\<open>None\<close> when the object has
  none) and the process name \<^verbatim>\<open>Unknown\<close>.  An array holding that one object gives the
  same; an array of \<open>n\<close> values gives at most \<open>n\<close> records; an array of objects with truthy
  ports and pairwise different keys gives the records of its objects, in their order.

  \<^bold>\<open>The software listings\<close> (registry, PackageManagement, AppX).  A bare object is
  parsed as an element of an array, and an array element by element from the left.  An
  object adds one record at the end of the list, or leaves the list as it is: the registry
  records the stripped \<^verbatim>\<open>DisplayName\<close> unless it is blank or recorded already;
  PackageManagement the stripped \<^verbatim>\<open>Name\<close>, followed by the source in parentheses when
  the source is truthy, and AppX \<^verbatim>\<open>Store:\<close> and the stripped \<^verbatim>\<open>Name\<close>, unless the
  \<^verbatim>\<open>Name\<close> is empty or the record name recorded already.  The version is the stripped
  version field when that is a string and not empty, and \<^verbatim>\<open>Unknown\<close> otherwise.  An
  object whose name field is not a string adds nothing.

  \<^bold>\<open>The Windows firmware.\<close>  The BIOS and motherboard probes store the fields of a bare
  object (\<^verbatim>\<open>Unknown\<close> for a missing one) and nothing for an array.  The device listings
  store a bare object under its name field, or under the default name; the objects of an
  array under their name fields, or under the default name followed by their position
  counted from 1: as many records as objects when the names are hashable and pairwise
  different, and at most one for each value of the array in any case.

  \<^bold>\<open>The macOS firmware.\<close>  Both probes raise on an array at the top.  Of the objects
  listed under \<^verbatim>\<open>SPHardwareDataType\<close> the first alone gives a record; a single object
  listed under \<^verbatim>\<open>SPStorageDataType\<close> gives one record under its \<^verbatim>\<open>_name\<close>.
\<close>

theorem json_shape_records:
  "tcp_listeners_of (PDict d) =
     (if truthy (pget d ''LocalPort'')
      then [(PStr (''TCP:'' @ py_str (pget d ''LocalPort'')),
             PDict [(PStr ''Protocol'', PStr ''TCP''), (PStr ''Port'', pget d ''LocalPort''),
                    (PStr ''Local Address'', pget_default d ''LocalAddress'' (PStr ''0.0.0.0'')),
                    (PStr ''State'', PStr ''LISTENING''), (PStr ''PID'', pget d ''OwningProcess''),
                    (PStr ''Process'', PStr ''Unknown'')])]
      else []) \<and>
   tcp_listeners_of (PList [PDict d]) = tcp_listeners_of (PDict d) \<and>
   length (tcp_listeners_of (PList conns)) \<le> length conns \<and>
   ((\<forall>d \<in> set ds. truthy (pget d ''LocalPort'')) \<and>
    distinct (map (\<lambda>d. ''TCP:'' @ py_str (pget d ''LocalPort'')) ds) \<longrightarrow>
      tcp_listeners_of (PList (map PDict ds)) = concat (map (\<lambda>d. tcp_listeners_of (PDict d)) ds)) \<and>
   json_items item_fn (PDict d) sl = item_fn (PDict d) sl \<and>
   json_items item_fn (PList [PDict d]) sl = item_fn (PDict d) sl \<and>
   json_items item_fn (PList (items @ [item])) sl = item_fn item (json_items item_fn (PList items) sl) \<and>
   registry_item (PDict d) sl =
     (case pget d ''DisplayName'' of
        PStr name \<Rightarrow>
          if strip name = [] \<or> dict_has sl (strip name) then sl
          else sl @ [(strip name,
                      case pget d ''DisplayVersion'' of
                        PStr v \<Rightarrow> if v = [] then ''Unknown'' else strip v
                      | _ \<Rightarrow> ''Unknown'')]
      | _ \<Rightarrow> sl) \<and>
   package_item (PDict d) sl =
     (case pget d ''Name'' of
        PStr name \<Rightarrow>
          (let source = pget_default d ''Source'' (PStr []);
               display_name =
                 (if truthy source then strip name @ '' ('' @ py_str source @ '')'' else strip name)
           in if name = [] \<or> dict_has sl display_name then sl
              else sl @ [(display_name,
                          case pget d ''Version'' of
                            PStr v \<Rightarrow> if v = [] then ''Unknown'' else strip v
                          | _ \<Rightarrow> ''Unknown'')])
      | _ \<Rightarrow> sl) \<and>
   appx_item (PDict d) sl =
     (case pget d ''Name'' of
        PStr name \<Rightarrow>
          if name = [] \<or> dict_has sl (''Store: '' @ strip name) then sl
          else sl @ [(''Store: '' @ strip name,
                      case pget d ''Version'' of
                        PStr v \<Rightarrow> if v = [] then ''Unknown'' else strip v
                      | _ \<Rightarrow> ''Unknown'')]
      | _ \<Rightarrow> sl) \<and>
   single_component category labels (PDict d) fi =
     Some (pset (PStr category)
             (PDict (map (\<lambda>(label, field). (PStr label, pget_default d field (PStr ''Unknown''))) labels))
             fi) \<and>
   single_component category labels (PList items) fi = Some fi \<and>
   (hashable (pget_default d name_field (PStr default_name)) \<longrightarrow>
      device_listing category name_field default_name labels (PDict d) fi =
        Some (pset (PStr category)
                (PDict [(pget_default d name_field (PStr default_name),
                         PDict (map (\<lambda>(label, field).
                                        (PStr label, pget_default d field (PStr ''Unknown''))) labels))])
                fi)) \<and>
   ((\<forall>(j, d) \<in> set (enumerate 0 devs).
        hashable (pget_default d name_field (PStr (default_name @ '' '' @ str_int (int j + 1))))) \<and>
    distinct (map (\<lambda>(j, d). key_norm (pget_default d name_field
                                         (PStr (default_name @ '' '' @ str_int (int j + 1)))))
                (enumerate 0 devs)) \<longrightarrow>
      device_listing category name_field default_name labels (PList (map PDict devs)) fi =
        Some (set_if_any category
                (map (\<lambda>(j, d).
                        (pget_default d name_field (PStr (default_name @ '' '' @ str_int (int j + 1))),
                         PDict (map (\<lambda>(label, field).
                                        (PStr label, pget_default d field (PStr ''Unknown''))) labels)))
                   (enumerate 0 devs))
                fi)) \<and>
   (device_listing category name_field default_name labels (PList items) fi = Some fi' \<longrightarrow>
      (\<exists>devices. length devices \<le> length items \<and> fi' = set_if_any category devices fi)) \<and>
   macos_hardware (PList items) fi = None \<and>
   macos_storage (PList items) fi = None \<and>
   macos_hardware (PDict [(PStr ''SPHardwareDataType'', PList (PDict hw # rest))]) fi =
     Some (pset (PStr ''System Firmware'')
             (PDict [(PStr ''Boot ROM Version'', pget_default hw ''boot_rom_version'' (PStr ''Unknown'')),
                     (PStr ''SMC Version'', pget_default hw ''SMC_version_system'' (PStr ''Unknown'')),
                     (PStr ''Serial Number'', pget_default hw ''serial_number'' (PStr ''Unknown''))])
             fi) \<and>
   (hashable (pget_default dev ''_name'' (PStr ''Unknown Storage'')) \<longrightarrow>
      macos_storage (PDict [(PStr ''SPStorageDataType'', PList [PDict dev])]) fi =
        Some (pset (PStr ''Storage Devices'')
                (PDict [(pget_default dev ''_name'' (PStr ''Unknown Storage''),
                         PDict [(PStr ''Physical Drive'',
                                 pget_default dev ''com.apple.diskUtility.partitionMapType'' (PStr ''Unknown'')),
                                (PStr ''Media Name'', pget_default dev ''device_model'' (PStr ''Unknown'')),
                                (PStr ''Revision'', pget_default dev ''device_revision'' (PStr ''Unknown''))])])
                fi))"
proof -
  have a1: "tcp_listeners_of (PDict d) =
     (if truthy (pget d ''LocalPort'')
      then [(PStr (''TCP:'' @ py_str (pget d ''LocalPort'')),
             PDict [(PStr ''Protocol'', PStr ''TCP''), (PStr ''Port'', pget d ''LocalPort''),
                    (PStr ''Local Address'', pget_default d ''LocalAddress'' (PStr ''0.0.0.0'')),
                    (PStr ''State'', PStr ''LISTENING''), (PStr ''PID'', pget d ''OwningProcess''),
                    (PStr ''Process'', PStr ''Unknown'')])]
      else [])"
    unfolding tcp_listeners_of_def pyval.case by (rule tcp_object)
  have a2: "tcp_listeners_of (PList [PDict d]) = tcp_listeners_of (PDict d)"
    by (simp add: tcp_listeners_of_def)
  have a3: "length (tcp_listeners_of (PList conns)) \<le> length conns"
    using fold_tcp_conn_length [of conns "[]"] by (simp add: tcp_listeners_of_def)
  have a4: "(\<forall>d \<in> set ds. truthy (pget d ''LocalPort'')) \<and>
    distinct (map (\<lambda>d. ''TCP:'' @ py_str (pget d ''LocalPort'')) ds) \<longrightarrow>
      tcp_listeners_of (PList (map PDict ds)) = concat (map (\<lambda>d. tcp_listeners_of (PDict d)) ds)"
    using fold_tcp_conn_records [of ds "[]" "[]"] by (simp add: tcp_listeners_of_def)
  have b0: "json_items item_fn (PDict d) sl = item_fn (PDict d) sl"
    by (simp add: json_items_def)
  have b1: "json_items item_fn (PList [PDict d]) sl = item_fn (PDict d) sl"
    by (simp add: json_items_def)
  have b2: "json_items item_fn (PList (items @ [item])) sl =
              item_fn item (json_items item_fn (PList items) sl)"
    by (simp add: json_items_def)
  have c1: "single_component category labels (PDict d) fi =
     Some (pset (PStr category)
             (PDict (map (\<lambda>(label, field). (PStr label, pget_default d field (PStr ''Unknown''))) labels))
             fi)"
    by (simp add: single_component_def fields_of_def)
  have c2: "single_component category labels (PList items) fi = Some fi"
    by (simp add: single_component_def)
  have c3: "hashable (pget_default d name_field (PStr default_name)) \<longrightarrow>
      device_listing category name_field default_name labels (PDict d) fi =
        Some (pset (PStr category)
                (PDict [(pget_default d name_field (PStr default_name),
                         PDict (map (\<lambda>(label, field).
                                        (PStr label, pget_default d field (PStr ''Unknown''))) labels))])
                fi)"
    by (simp add: device_listing_def fields_of_def set_if_any_def Let_def)
  have c4: "(\<forall>(j, d) \<in> set (enumerate 0 devs).
        hashable (pget_default d name_field (PStr (default_name @ '' '' @ str_int (int j + 1))))) \<and>
    distinct (map (\<lambda>(j, d). key_norm (pget_default d name_field
                                         (PStr (default_name @ '' '' @ str_int (int j + 1)))))
                (enumerate 0 devs)) \<longrightarrow>
      device_listing category name_field default_name labels (PList (map PDict devs)) fi =
        Some (set_if_any category
                (map (\<lambda>(j, d).
                        (pget_default d name_field (PStr (default_name @ '' '' @ str_int (int j + 1))),
                         PDict (map (\<lambda>(label, field).
                                        (PStr label, pget_default d field (PStr ''Unknown''))) labels)))
                   (enumerate 0 devs))
                fi)"
    using device_loop_records [of 0 devs name_field default_name "[]" labels]
    by (simp add: device_listing_def fields_of_def)
  have c5: "device_listing category name_field default_name labels (PList items) fi = Some fi' \<longrightarrow>
      (\<exists>devices. length devices \<le> length items \<and> fi' = set_if_any category devices fi)"
  proof
    assume dl: "device_listing category name_field default_name labels (PList items) fi = Some fi'"
    then obtain devices where
      loop: "device_loop name_field default_name labels 0 items [] = Some devices"
      and fi': "fi' = set_if_any category devices fi"
      by (auto simp: device_listing_def split: option.splits)
    from device_loop_length [OF loop] have "length devices \<le> length items" by simp
    with fi' show "\<exists>devices. length devices \<le> length items \<and> fi' = set_if_any category devices fi"
      by blast
  qed
  have d1: "macos_hardware (PList items) fi = None"
    by (simp add: macos_hardware_def)
  have d2: "macos_storage (PList items) fi = None"
    by (simp add: macos_storage_def)
  have d3: "macos_hardware (PDict [(PStr ''SPHardwareDataType'', PList (PDict hw # rest))]) fi =
     Some (pset (PStr ''System Firmware'')
             (PDict [(PStr ''Boot ROM Version'', pget_default hw ''boot_rom_version'' (PStr ''Unknown'')),
                     (PStr ''SMC Version'', pget_default hw ''SMC_version_system'' (PStr ''Unknown'')),
                     (PStr ''Serial Number'', pget_default hw ''serial_number'' (PStr ''Unknown''))])
             fi)"
    by (simp add: macos_hardware_def fields_of_def Let_def pget_default_def [of "[_]"])
  have d4: "hashable (pget_default dev ''_name'' (PStr ''Unknown Storage'')) \<longrightarrow>
      macos_storage (PDict [(PStr ''SPStorageDataType'', PList [PDict dev])]) fi =
        Some (pset (PStr ''Storage Devices'')
                (PDict [(pget_default dev ''_name'' (PStr ''Unknown Storage''),
                         PDict [(PStr ''Physical Drive'',
                                 pget_default dev ''com.apple.diskUtility.partitionMapType'' (PStr ''Unknown'')),
                                (PStr ''Media Name'', pget_default dev ''device_model'' (PStr ''Unknown'')),
                                (PStr ''Revision'', pget_default dev ''device_revision'' (PStr ''Unknown''))])])
                fi)"
    by (simp add: macos_storage_def fields_of_def Let_def set_if_any_def pget_default_def [of "[_]"])
  show ?thesis
    by (intro conjI) (fact a1 a2 a3 a4 b0 b1 b2 registry_object package_object appx_object
        c1 c2 c3 c4 c5 d1 d2 d3 d4)+
qed

theorem json_shape_records_witness:
  "tcp_listeners_of
     (PList [PDict [(PStr ''LocalAddress'', PStr ''::''), (PStr ''LocalPort'', PInt 80),
                    (PStr ''OwningProcess'', PInt 4)],
             PDict [(PStr ''LocalPort'', PInt 443)]]) =
     [(PStr ''TCP:80'',
       PDict [(PStr ''Protocol'', PStr ''TCP''), (PStr ''Port'', PInt 80),
              (PStr ''Local Address'', PStr ''::''), (PStr ''State'', PStr ''LISTENING''),
              (PStr ''PID'', PInt 4), (PStr ''Process'', PStr ''Unknown'')]),
      (PStr ''TCP:443'',
       PDict [(PStr ''Protocol'', PStr ''TCP''), (PStr ''Port'', PInt 443),
              (PStr ''Local Address'', PStr ''0.0.0.0''), (PStr ''State'', PStr ''LISTENING''),
              (PStr ''PID'', PNone), (PStr ''Process'', PStr ''Unknown'')])] \<and>
   device_listing ''Network Adapters'' ''Name'' ''Network Adapter''
     [(''Manufacturer'', ''Manufacturer''), (''Driver Version'', ''DriverVersion'')]
     (PDict [(PStr ''Manufacturer'', PStr ''Realtek'')]) [] =
     Some [(PStr ''Network Adapters'',
            PDict [(PStr ''Network Adapter'',
                    PDict [(PStr ''Manufacturer'', PStr ''Realtek''),
                           (PStr ''Driver Version'', PStr ''Unknown'')])])] \<and>
   device_listing ''Network Adapters'' ''Name'' ''Network Adapter''
     [(''Manufacturer'', ''Manufacturer''), (''Driver Version'', ''DriverVersion'')]
     (PList [PDict [(PStr ''Name'', PStr ''I219''), (PStr ''DriverVersion'', PStr ''12.19'')],
             PDict [(PStr ''Manufacturer'', PStr ''Realtek'')]]) [] =
     Some [(PStr ''Network Adapters'',
            PDict [(PStr ''I219'',
                    PDict [(PStr ''Manufacturer'', PStr ''Unknown''),
                           (PStr ''Driver Version'', PStr ''12.19'')]),
                   (PStr ''Network Adapter 2'',
                    PDict [(PStr ''Manufacturer'', PStr ''Realtek''),
                           (PStr ''Driver Version'', PStr ''Unknown'')])])] \<and>
   (\<exists>devices. length devices \<le> 2 \<and>
      [(PStr ''Network Adapters'',
        PDict [(PStr ''I219'',
                PDict [(PStr ''Manufacturer'', PStr ''Unknown''),
                       (PStr ''Driver Version'', PStr ''12.19'')]),
               (PStr ''Network Adapter 2'',
                PDict [(PStr ''Manufacturer'', PStr ''Realtek''),
                       (PStr ''Driver Version'', PStr ''Unknown'')])])] =
      set_if_any ''Network Adapters'' devices []) \<and>
   macos_storage
     (PDict [(PStr ''SPStorageDataType'',
              PList [PDict [(PStr ''_name'', PStr ''Macintosh HD''),
                            (PStr ''device_model'', PStr ''APPLE SSD'')]])]) [] =
     Some [(PStr ''Storage Devices'',
            PDict [(PStr ''Macintosh HD'',
                    PDict [(PStr ''Physical Drive'', PStr ''Unknown''),
                           (PStr ''Media Name'', PStr ''APPLE SSD''),
                           (PStr ''Revision'', PStr ''Unknown'')])])]"
proof -
  let ?c80 = "[(PStr ''LocalAddress'', PStr ''::''), (PStr ''LocalPort'', PInt 80),
               (PStr ''OwningProcess'', PInt 4)]"
  let ?c443 = "[(PStr ''LocalPort'', PInt 443)]"
  let ?labels = "[(''Manufacturer'', ''Manufacturer''), (''Driver Version'', ''DriverVersion'')]"
  let ?a1 = "[(PStr ''Name'', PStr ''I219''), (PStr ''DriverVersion'', PStr ''12.19'')]"
  let ?a2 = "[(PStr ''Manufacturer'', PStr ''Realtek'')]"
  let ?disk = "[(PStr ''_name'', PStr ''Macintosh HD''), (PStr ''device_model'', PStr ''APPLE SSD'')]"
  let ?adapters = "[(PStr ''Network Adapters'',
        PDict [(PStr ''I219'',
                PDict [(PStr ''Manufacturer'', PStr ''Unknown''),
                       (PStr ''Driver Version'', PStr ''12.19'')]),
               (PStr ''Network Adapter 2'',
                PDict [(PStr ''Manufacturer'', PStr ''Realtek''),
                       (PStr ''Driver Version'', PStr ''Unknown'')])])]"
  note records = json_shape_records [where d = ?a2 and conns = "[]" and ds = "[?c80, ?c443]"
      and item_fn = registry_item and sl = "[]" and items = "[PDict ?a1, PDict ?a2]" and item = PNone
      and category = "''Network Adapters''" and labels = ?labels and fi = "[]"
      and name_field = "''Name''" and default_name = "''Network Adapter''"
      and devs = "[?a1, ?a2]" and fi' = ?adapters and hw = "[]" and rest = "[]" and dev = ?disk]
  have one: "str_int 1 = ''1''" "str_int 2 = ''2''" "str_int 80 = ''80''" "str_int 443 = ''443''"
    by (simp_all add: str_int_def str_nat.simps digit_chr_def)
  have tcp: "tcp_listeners_of (PList [PDict ?c80, PDict ?c443]) =
     [(PStr ''TCP:80'',
       PDict [(PStr ''Protocol'', PStr ''TCP''), (PStr ''Port'', PInt 80),
              (PStr ''Local Address'', PStr ''::''), (PStr ''State'', PStr ''LISTENING''),
              (PStr ''PID'', PInt 4), (PStr ''Process'', PStr ''Unknown'')]),
      (PStr ''TCP:443'',
       PDict [(PStr ''Protocol'', PStr ''TCP''), (PStr ''Port'', PInt 443),
              (PStr ''Local Address'', PStr ''0.0.0.0''), (PStr ''State'', PStr ''LISTENING''),
              (PStr ''PID'', PNone), (PStr ''Process'', PStr ''Unknown'')])]"
    using records [THEN conjunct2, THEN conjunct2, THEN conjunct2, THEN conjunct1]
    by (simp add: pget_def pget_default_def py_str_def one tcp_listeners_of_def [of "PDict _"]
        tcp_conn_def port_entry_def Let_def)
  have object: "device_listing ''Network Adapters'' ''Name'' ''Network Adapter'' ?labels (PDict ?a2) [] =
     Some [(PStr ''Network Adapters'',
            PDict [(PStr ''Network Adapter'',
                    PDict [(PStr ''Manufacturer'', PStr ''Realtek''),
                           (PStr ''Driver Version'', PStr ''Unknown'')])])]"
    using records [THEN conjunct2, THEN conjunct2, THEN conjunct2, THEN conjunct2, THEN conjunct2, THEN conjunct2, THEN conjunct2, THEN conjunct2, THEN conjunct2, THEN conjunct2, THEN conjunct2, THEN conjunct2, THEN conjunct1]
    by (simp add: pget_default_def)
  have array: "device_listing ''Network Adapters'' ''Name'' ''Network Adapter'' ?labels
     (PList [PDict ?a1, PDict ?a2]) [] = Some ?adapters"
    using records [THEN conjunct2, THEN conjunct2, THEN conjunct2, THEN conjunct2, THEN conjunct2, THEN conjunct2, THEN conjunct2, THEN conjunct2, THEN conjunct2, THEN conjunct2, THEN conjunct2, THEN conjunct2, THEN conjunct2, THEN conjunct1]
    by (simp add: pget_default_def one set_if_any_def)
  have bound: "\<exists>devices. length devices \<le> 2 \<and> ?adapters = set_if_any ''Network Adapters'' devices []"
    using records [THEN conjunct2, THEN conjunct2, THEN conjunct2, THEN conjunct2, THEN conjunct2, THEN conjunct2, THEN conjunct2, THEN conjunct2, THEN conjunct2, THEN conjunct2, THEN conjunct2, THEN conjunct2, THEN conjunct2, THEN conjunct2, THEN conjunct1] array by (simp add: numeral_2_eq_2)
  have storage: "macos_storage (PDict [(PStr ''SPStorageDataType'', PList [PDict ?disk])]) [] =
     Some [(PStr ''Storage Devices'',
            PDict [(PStr ''Macintosh HD'',
                    PDict [(PStr ''Physical Drive'', PStr ''Unknown''),
                           (PStr ''Media Name'', PStr ''APPLE SSD''),
                           (PStr ''Revision'', PStr ''Unknown'')])])]"
    using records [THEN conjunct2, THEN conjunct2, THEN conjunct2, THEN conjunct2, THEN conjunct2, THEN conjunct2, THEN conjunct2, THEN conjunct2, THEN conjunct2, THEN conjunct2, THEN conjunct2, THEN conjunct2, THEN conjunct2, THEN conjunct2, THEN conjunct2, THEN conjunct2, THEN conjunct2, THEN conjunct2]
    by (simp add: pget_default_def)
  from tcp object array bound storage show ?thesis
    by (intro conjI)
qed
section \<open>C3: what a probe leaves behind\<close>

text \<open>
  C3, as the specification words it, fails: the Snap probe whose executable is missing
  and the Snap probe that runs and finds nothing return the same mapping and print the
  same single line, so the failure of the first is recorded nowhere.
\<close>

theorem silent_failure_counterexample:
  "run env_snap_missing [''snap'', ''list''] = Raises (Exn FileNotFoundError ''No such file or directory'') \<and>
   run env_snap_idle [''snap'', ''list''] = Completed 0 ''Name  Version  Rev  Tracking  Publisher  Notes'' \<and>
   get_snap_packages env_snap_missing = ([], [Print ''Scanning Snap packages...'', Run [''snap'', ''list'']]) \<and>
   get_snap_packages env_snap_idle = ([], [Print ''Scanning Snap packages...'', Run [''snap'', ''list'']])"
  by (simp add: get_snap_packages_def env_snap_missing_def env_snap_idle_def no_tool_def
      stripped_lines_def strip_def is_space_def split_chr_def)

text \<open>
  C3 as amended.  Each of the Snap, Flatpak, Homebrew, Homebrew Cask, MacPorts and App
  Store probes prints the line that announces it and starts its command, and that is all
  it leaves in every run: an exception or a non-zero exit status prints nothing and
  gives the empty mapping.  The pip probe prints a second line, with the text of the
  exception, when its command raises, and nothing for a non-zero exit status.
\<close>

theorem probe_trace:
  "snd (get_snap_packages e) = [Print ''Scanning Snap packages...'', Run [''snap'', ''list'']] \<and>
   snd (get_flatpak_packages e) = [Print ''Scanning Flatpak packages...'', Run flatpak_cmd] \<and>
   snd (get_homebrew_packages e) = [Print ''Scanning Homebrew packages...'', Run brew_cmd] \<and>
   snd (get_homebrew_cask_packages e) = [Print ''Scanning Homebrew Cask packages...'', Run cask_cmd] \<and>
   snd (get_macports_packages e) = [Print ''Scanning MacPorts packages...'', Run port_cmd] \<and>
   snd (get_app_store_apps e) = [Print ''Scanning Mac App Store apps...'', Run mas_cmd] \<and>
   (\<not> succeeded (run e [''snap'', ''list'']) \<longrightarrow> fst (get_snap_packages e) = []) \<and>
   (\<not> succeeded (run e flatpak_cmd) \<longrightarrow> fst (get_flatpak_packages e) = []) \<and>
   (\<not> succeeded (run e brew_cmd) \<longrightarrow> fst (get_homebrew_packages e) = []) \<and>
   (\<not> succeeded (run e cask_cmd) \<longrightarrow> fst (get_homebrew_cask_packages e) = []) \<and>
   (\<not> succeeded (run e port_cmd) \<longrightarrow> fst (get_macports_packages e) = []) \<and>
   (\<not> succeeded (run e mas_cmd) \<longrightarrow> fst (get_app_store_apps e) = []) \<and>
   (\<forall>ex. run e (pip_cmd e) = Raises ex \<longrightarrow>
      get_python_packages e =
        ([], [Print ''Scanning Python packages...'', Run (pip_cmd e),
              Print (''Python packages scan failed: '' @ str_exn ex)])) \<and>
   (\<forall>rc out. run e (pip_cmd e) = Completed rc out \<and> rc \<noteq> 0 \<longrightarrow>
      get_python_packages e = ([], [Print ''Scanning Python packages...'', Run (pip_cmd e)]))"
proof -
  have 1: "snd (get_snap_packages e) = [Print ''Scanning Snap packages...'', Run [''snap'', ''list'']]"
    by (simp add: get_snap_packages_def split: proc.splits)
  have 2: "snd (get_flatpak_packages e) = [Print ''Scanning Flatpak packages...'', Run flatpak_cmd]"
    by (simp add: get_flatpak_packages_def split: proc.splits)
  have 3: "snd (get_homebrew_packages e) = [Print ''Scanning Homebrew packages...'', Run brew_cmd]"
    by (simp add: get_homebrew_packages_def split: proc.splits)
  have 4: "snd (get_homebrew_cask_packages e) =
             [Print ''Scanning Homebrew Cask packages...'', Run cask_cmd]"
    by (simp add: get_homebrew_cask_packages_def split: proc.splits)
  have 5: "snd (get_macports_packages e) = [Print ''Scanning MacPorts packages...'', Run port_cmd]"
    by (simp add: get_macports_packages_def split: proc.splits)
  have 6: "snd (get_app_store_apps e) = [Print ''Scanning Mac App Store apps...'', Run mas_cmd]"
    by (simp add: get_app_store_apps_def split: proc.splits)
  have 7: "\<not> succeeded (run e [''snap'', ''list'']) \<longrightarrow> fst (get_snap_packages e) = []"
    by (simp add: get_snap_packages_def succeeded_def split: proc.splits)
  have 8: "\<not> succeeded (run e flatpak_cmd) \<longrightarrow> fst (get_flatpak_packages e) = []"
    by (simp add: get_flatpak_packages_def succeeded_def split: proc.splits)
  have 9: "\<not> succeeded (run e brew_cmd) \<longrightarrow> fst (get_homebrew_packages e) = []"
    by (simp add: get_homebrew_packages_def succeeded_def split: proc.splits)
  have 10: "\<not> succeeded (run e cask_cmd) \<longrightarrow> fst (get_homebrew_cask_packages e) = []"
    by (simp add: get_homebrew_cask_packages_def succeeded_def split: proc.splits)
  have 11: "\<not> succeeded (run e port_cmd) \<longrightarrow> fst (get_macports_packages e) = []"
    by (simp add: get_macports_packages_def succeeded_def split: proc.splits)
  have 12: "\<not> succeeded (run e mas_cmd) \<longrightarrow> fst (get_app_store_apps e) = []"
    by (simp add: get_app_store_apps_def succeeded_def split: proc.splits)
  have 13: "\<forall>ex. run e (pip_cmd e) = Raises ex \<longrightarrow>
      get_python_packages e =
        ([], [Print ''Scanning Python packages...'', Run (pip_cmd e),
              Print (''Python packages scan failed: '' @ str_exn ex)])"
    by (simp add: get_python_packages_def)
  have 14: "\<forall>rc out. run e (pip_cmd e) = Completed rc out \<and> rc \<noteq> 0 \<longrightarrow>
      get_python_packages e = ([], [Print ''Scanning Python packages...'', Run (pip_cmd e)])"
    by (simp add: get_python_packages_def)
  from 1 2 3 4 5 6 7 8 9 10 11 12 13 14 show ?thesis by blast
qed

theorem probe_trace_witness:
  "fst (get_snap_packages env_snap_missing) = [] \<and>
   get_python_packages env_snap_missing =
     ([], [Print ''Scanning Python packages...'', Run [''python3'', ''-m'', ''pip'', ''list''],
           Print ''Python packages scan failed: No such file or directory''])"
proof -
  have r: "run env_snap_missing c = Raises (Exn FileNotFoundError ''No such file or directory'')" for c
    by (simp add: env_snap_missing_def no_tool_def)
  have p: "pip_cmd env_snap_missing = [''python3'', ''-m'', ''pip'', ''list'']"
    by (simp add: pip_cmd_def env_snap_missing_def)
  from probe_trace [of env_snap_missing] r p show ?thesis
    by (simp add: succeeded_def)
qed

section \<open>The keys of the port and firmware dictionaries\<close>

lemma pset_keys: "fst ` set (pset k v d) \<subseteq> insert k (fst ` set d)"
proof (induction d)
  case Nil
  show ?case by simp
next
  case (Cons x d)
  obtain k' v' where x: "x = (k', v')" by (cases x)
  show ?case
  proof (cases "key_norm k' = key_norm k")
    case True
    then show ?thesis by (auto simp: x)
  next
    case False
    with Cons show ?thesis by (auto simp: x)
  qed
qed

lemma set_if_any_keys:
  "fst ` set (set_if_any category entries info) \<subseteq> insert (PStr category) (fst ` set info)"
  using pset_keys [of "PStr category" "PDict entries" info]
  by (cases "entries = []") (auto simp: set_if_any_def)

lemma chain2: "A \<subseteq> insert a {} \<Longrightarrow> B \<subseteq> insert b A \<Longrightarrow> B \<subseteq> {a, b}"
  by auto

lemma chain3: "A \<subseteq> insert a {} \<Longrightarrow> B \<subseteq> insert b A \<Longrightarrow> C \<subseteq> insert c B \<Longrightarrow> C \<subseteq> {a, b, c}"
  by auto

lemma chain5:
  "A \<subseteq> insert a {} \<Longrightarrow> B \<subseteq> insert b A \<Longrightarrow> C \<subseteq> insert c B \<Longrightarrow> D \<subseteq> insert d C \<Longrightarrow>
   E \<subseteq> insert e D \<Longrightarrow> E \<subseteq> {a, b, c, d, e}"
  by blast

lemma image_fst_Nil: "fst ` set [] = {}"
  by simp

lemma win_netstat_keys:
  "fst ` set (win_netstat e info) \<subseteq> insert (PStr ''Listening Ports'') (fst ` set info)"
  using set_if_any_keys [of "''Listening Ports''" _ info]
  by (auto simp: win_netstat_def split: proc.splits)

lemma win_processes_keys:
  "fst ` set (win_processes e info) \<subseteq> insert (PStr ''Listening Ports'') (fst ` set info)"
  using pset_keys [of "PStr ''Listening Ports''" _ info]
  by (auto simp: win_processes_def split: option.splits pyval.splits)

lemma win_tcp_keys:
  "fst ` set (win_tcp e info) \<subseteq> insert (PStr ''TCP Listeners'') (fst ` set info)"
  using set_if_any_keys [of "''TCP Listeners''" _ info]
  by (auto simp: win_tcp_def split: proc.splits sum.splits)

lemma linux_netstat_keys:
  "fst ` set (linux_netstat e info) \<subseteq> insert (PStr ''Listening Ports'') (fst ` set info)"
  using set_if_any_keys [of "''Listening Ports''" _ info]
  by (auto simp: linux_netstat_def split: proc.splits)

lemma linux_ss_keys:
  "fst ` set (linux_ss e info) \<subseteq> insert (PStr ''SS Listeners'') (fst ` set info)"
  using set_if_any_keys [of "''SS Listeners''" _ info]
  by (auto simp: linux_ss_def split: proc.splits)

lemma macos_netstat_keys:
  "fst ` set (macos_netstat e info) \<subseteq> insert (PStr ''Listening Ports'') (fst ` set info)"
  using set_if_any_keys [of "''Listening Ports''" _ info]
  by (auto simp: macos_netstat_def split: proc.splits)

lemma macos_lsof_keys:
  "fst ` set (macos_lsof e info) \<subseteq> insert (PStr ''LSOF Listeners'') (fst ` set info)"
  using set_if_any_keys [of "''LSOF Listeners''" _ info]
  by (auto simp: macos_lsof_def split: proc.splits)

lemma windows_ports_keys:
  "fst ` set (get_windows_ports e) \<subseteq>
     {PStr ''Listening Ports'', PStr ''Listening Ports'', PStr ''TCP Listeners''}"
  unfolding get_windows_ports_def
  by (rule chain3 [OF win_netstat_keys [of e "[]", unfolded image_fst_Nil]
        win_processes_keys win_tcp_keys])

lemma linux_ports_keys:
  "fst ` set (get_linux_ports e) \<subseteq> {PStr ''Listening Ports'', PStr ''SS Listeners''}"
  unfolding get_linux_ports_def
  by (rule chain2 [OF linux_netstat_keys [of e "[]", unfolded image_fst_Nil] linux_ss_keys])

lemma macos_ports_keys:
  "fst ` set (get_macos_ports e) \<subseteq> {PStr ''Listening Ports'', PStr ''LSOF Listeners''}"
  unfolding get_macos_ports_def
  by (rule chain2 [OF macos_netstat_keys [of e "[]", unfolded image_fst_Nil] macos_lsof_keys])

lemma fw_powershell_keys:
  assumes "\<And>data fi. handle data info = Some fi \<Longrightarrow> fst ` set fi \<subseteq> insert k (fst ` set info)"
  shows "fst ` set (fw_powershell e script handle info) \<subseteq> insert k (fst ` set info)"
  using assms by (auto simp: fw_powershell_def split: proc.splits sum.splits option.splits)

lemma fw_profiler_keys:
  assumes "\<And>data fi. handle data info = Some fi \<Longrightarrow> fst ` set fi \<subseteq> insert k (fst ` set info)"
  shows "fst ` set (fw_profiler e data_type handle info) \<subseteq> insert k (fst ` set info)"
  using assms by (auto simp: fw_profiler_def split: proc.splits sum.splits option.splits)

lemma single_component_keys:
  "single_component category labels data info = Some fi \<Longrightarrow>
   fst ` set fi \<subseteq> insert (PStr category) (fst ` set info)"
  using pset_keys [of "PStr category" _ info]
  by (auto simp: single_component_def split: pyval.splits)

lemma device_listing_keys:
  "device_listing category name_field default_name labels data info = Some fi \<Longrightarrow>
   fst ` set fi \<subseteq> insert (PStr category) (fst ` set info)"
  using set_if_any_keys [of category _ info]
  by (auto simp: device_listing_def split: option.splits)

lemma macos_hardware_keys:
  "macos_hardware data info = Some fi \<Longrightarrow>
   fst ` set fi \<subseteq> insert (PStr ''System Firmware'') (fst ` set info)"
  using pset_keys [of "PStr ''System Firmware''" _ info]
  by (auto simp: macos_hardware_def Let_def split: pyval.splits option.splits if_splits)

lemma macos_storage_keys:
  "macos_storage data info = Some fi \<Longrightarrow>
   fst ` set fi \<subseteq> insert (PStr ''Storage Devices'') (fst ` set info)"
  using set_if_any_keys [of "''Storage Devices''" _ info]
  by (auto simp: macos_storage_def split: pyval.splits option.splits)

lemma linux_bios_keys:
  "fst ` set (linux_bios e info) \<subseteq> insert (PStr ''BIOS/UEFI'') (fst ` set info)"
  using set_if_any_keys [of "''BIOS/UEFI''" _ info]
  by (auto simp: linux_bios_def split: proc.splits)

lemma linux_network_keys:
  "fst ` set (linux_network e info) \<subseteq> insert (PStr ''Network Devices'') (fst ` set info)"
  using set_if_any_keys [of "''Network Devices''" _ info]
  by (auto simp: linux_network_def split: proc.splits)

lemma linux_storage_keys:
  "fst ` set (linux_storage e info) \<subseteq> insert (PStr ''Storage Devices'') (fst ` set info)"
  using set_if_any_keys [of "''Storage Devices''" _ info]
  by (auto simp: linux_storage_def split: proc.splits)

lemma linux_firmware_keys:
  "fst ` set (get_linux_firmware e) \<subseteq>
     {PStr ''BIOS/UEFI'', PStr ''Network Devices'', PStr ''Storage Devices''}"
  unfolding get_linux_firmware_def
  by (rule chain3 [OF linux_bios_keys [of e "[]", unfolded image_fst_Nil]
        linux_network_keys linux_storage_keys])

lemma macos_firmware_keys:
  "fst ` set (get_macos_firmware e) \<subseteq> {PStr ''System Firmware'', PStr ''Storage Devices''}"
proof -
  let ?a = "fw_profiler e ''SPHardwareDataType'' macos_hardware []"
  have a: "fst ` set ?a \<subseteq> insert (PStr ''System Firmware'') {}"
    using fw_profiler_keys [where handle = macos_hardware and info = "[]", OF macos_hardware_keys]
    by simp
  have b: "fst ` set (fw_profiler e ''SPStorageDataType'' macos_storage ?a)
          \<subseteq> insert (PStr ''Storage Devices'') (fst ` set ?a)"
    by (rule fw_profiler_keys) (rule macos_storage_keys)
  show ?thesis unfolding get_macos_firmware_def
    by (rule chain2 [OF a b])
qed

lemma windows_firmware_keys:
  "fst ` set (get_windows_firmware e) \<subseteq>
     {PStr ''BIOS/UEFI'', PStr ''Motherboard'', PStr ''Network Adapters'', PStr ''Storage Devices'',
      PStr ''Graphics Cards''}"
proof -
  define l1 where "l1 = [(''Manufacturer'', ''Manufacturer''), (''Name'', ''Name''), (''Version'', ''Version''),
                      (''Release Date'', ''ReleaseDate''), (''Serial Number'', ''SerialNumber'')]"
  define l2 where "l2 = [(''Manufacturer'', ''Manufacturer''), (''Product'', ''Product''),
                      (''Version'', ''Version''), (''Serial Number'', ''SerialNumber'')]"
  define l3 where "l3 = [(''Manufacturer'', ''Manufacturer''), (''Description'', ''Description''),
                      (''Driver Version'', ''DriverVersion'')]"
  define l4 where "l4 = [(''Manufacturer'', ''Manufacturer''), (''Firmware Revision'', ''FirmwareRevision''),
                      (''Serial Number'', ''SerialNumber''), (''Interface Type'', ''InterfaceType'')]"
  define l5 where "l5 = [(''Driver Version'', ''DriverVersion''), (''Driver Date'', ''DriverDate''),
                      (''Video Processor'', ''VideoProcessor'')]"
  define f1 where "f1 = fw_powershell e bios_script (single_component ''BIOS/UEFI'' l1) []"
  define f2 where "f2 = fw_powershell e baseboard_script (single_component ''Motherboard'' l2) f1"
  define f3 where "f3 = fw_powershell e adapter_script
                          (device_listing ''Network Adapters'' ''Name'' ''Network Adapter'' l3) f2"
  define f4 where "f4 = fw_powershell e disk_script
                          (device_listing ''Storage Devices'' ''Model'' ''Storage Device'' l4) f3"
  define f5 where "f5 = fw_powershell e video_script
                          (device_listing ''Graphics Cards'' ''Name'' ''Graphics Card'' l5) f4"
  have 1: "fst ` set f1 \<subseteq> insert (PStr ''BIOS/UEFI'') {}"
    unfolding f1_def
    using fw_powershell_keys [where handle = "single_component ''BIOS/UEFI'' l1" and info = "[]",
        OF single_component_keys]
    by simp
  have 2: "fst ` set f2 \<subseteq> insert (PStr ''Motherboard'') (fst ` set f1)"
    unfolding f2_def by (rule fw_powershell_keys) (rule single_component_keys)
  have 3: "fst ` set f3 \<subseteq> insert (PStr ''Network Adapters'') (fst ` set f2)"
    unfolding f3_def by (rule fw_powershell_keys) (rule device_listing_keys)
  have 4: "fst ` set f4 \<subseteq> insert (PStr ''Storage Devices'') (fst ` set f3)"
    unfolding f4_def by (rule fw_powershell_keys) (rule device_listing_keys)
  have 5: "fst ` set f5 \<subseteq> insert (PStr ''Graphics Cards'') (fst ` set f4)"
    unfolding f5_def by (rule fw_powershell_keys) (rule device_listing_keys)
  have eq: "get_windows_firmware e = f5"
    unfolding get_windows_firmware_def Let_def f1_def f2_def f3_def f4_def f5_def
      l1_def l2_def l3_def l4_def l5_def by (rule refl)
  show ?thesis unfolding eq by (rule chain5 [OF 1 2 3 4 5])
qed

lemma error_not_key:
  "fst ` set d \<subseteq> ks \<Longrightarrow> k \<notin> ks \<Longrightarrow> map_of d k = None"
  by (auto simp: map_of_eq_None_iff)

section \<open>When no command succeeds\<close>

lemma pm_loop_failed:
  assumes "\<forall>c. \<not> succeeded (run e c)"
  shows "fst (pm_loop e pms sl) = sl"
proof (induction pms)
  case Nil
  show ?case by simp
next
  case (Cons pm pms)
  obtain n c where pm: "pm = (n, c)" by (cases pm)
  from assms have "\<not> succeeded (run e c)" by simp
  with Cons show ?case
    by (auto simp: pm succeeded_def split: proc.splits prod.splits)
qed

lemma linux_probes_failed:
  assumes "\<forall>c. \<not> succeeded (run e c)"
  shows "fst (get_linux_software e) = []" and "fst (get_snap_packages e) = []"
    and "fst (get_flatpak_packages e) = []" and "fst (get_python_packages e) = []"
proof -
  show "fst (get_linux_software e) = []"
    using assms by (simp add: get_linux_software_def pm_loop_failed)
  show "fst (get_snap_packages e) = []"
    using assms [rule_format, of "[''snap'', ''list'']"]
    by (simp add: get_snap_packages_def succeeded_def split: proc.splits)
  show "fst (get_flatpak_packages e) = []"
    using assms [rule_format, of flatpak_cmd]
    by (simp add: get_flatpak_packages_def succeeded_def split: proc.splits)
  show "fst (get_python_packages e) = []"
    using assms [rule_format, of "pip_cmd e"]
    by (simp add: get_python_packages_def succeeded_def split: proc.splits)
qed

lemma dict_update_Nil: "dict_update d [] = d"
  by (simp add: dict_update_def)

lemma linux_installed_failed:
  "\<forall>c. \<not> succeeded (run e c) \<Longrightarrow> fst (linux_installed_software e) = []"
  by (simp add: fst_linux_installed linux_probes_failed dict_update_Nil)

lemma powershell_scan_failed:
  assumes "\<forall>c. \<not> succeeded (run e c)"
  shows "fst (powershell_scan e announce script pf sf item_fn sl) = sl"
  using assms [rule_format, of "[''powershell'', ''-Command'', script]"]
  by (simp add: powershell_scan_def Let_def succeeded_def split: proc.splits)

lemma registry_loop_failed:
  assumes "\<forall>c. \<not> succeeded (run e c)"
  shows "fst (registry_loop e paths sl) = sl"
proof (induction paths)
  case Nil
  show ?case by simp
next
  case (Cons path paths)
  have "fst (registry_scan e path sl) = sl"
    using assms by (simp add: registry_scan_def powershell_scan_failed)
  with Cons show ?case by (auto split: prod.splits)
qed

lemma wmic_scan_failed:
  assumes "\<forall>c. \<not> succeeded (run e c)"
  shows "fst (wmic_scan e sl) = sl"
  using assms [rule_format, of wmic_cmd]
  by (simp add: wmic_scan_def succeeded_def split: proc.splits)

lemma fst_windows_installed:
  "fst (windows_installed_software e) =
     dict_update (dict_update [] (fst (get_windows_software e))) (fst (get_python_packages e))"
  by (simp add: windows_installed_software_def split: prod.splits)

lemma windows_installed_failed:
  assumes "\<forall>c. \<not> succeeded (run e c)"
  shows "fst (windows_installed_software e) = []"
  using assms
  by (simp add: fst_windows_installed fst_get_windows_software wmic_scan_failed registry_loop_failed
      package_scan_def appx_scan_def powershell_scan_failed linux_probes_failed dict_update_Nil)

lemma macos_probes_failed:
  assumes "\<forall>c. \<not> succeeded (run e c)"
  shows "fst (get_macos_applications e) = []" and "fst (get_homebrew_packages e) = []"
    and "fst (get_homebrew_cask_packages e) = []" and "fst (get_macports_packages e) = []"
    and "fst (get_app_store_apps e) = []"
proof -
  show "fst (get_macos_applications e) = []"
    using assms [rule_format, of profiler_apps_cmd]
    by (simp add: get_macos_applications_def succeeded_def split: proc.splits)
  show "fst (get_homebrew_packages e) = []"
    using assms [rule_format, of brew_cmd]
    by (simp add: get_homebrew_packages_def succeeded_def split: proc.splits)
  show "fst (get_homebrew_cask_packages e) = []"
    using assms [rule_format, of cask_cmd]
    by (simp add: get_homebrew_cask_packages_def succeeded_def split: proc.splits)
  show "fst (get_macports_packages e) = []"
    using assms [rule_format, of port_cmd]
    by (simp add: get_macports_packages_def succeeded_def split: proc.splits)
  show "fst (get_app_store_apps e) = []"
    using assms [rule_format, of mas_cmd]
    by (simp add: get_app_store_apps_def succeeded_def split: proc.splits)
qed

lemma fst_macos_installed:
  "fst (macos_installed_software e) =
     dict_update (dict_update (dict_update (dict_update (dict_update (dict_update []
       (fst (get_macos_applications e))) (fst (get_homebrew_packages e)))
       (fst (get_homebrew_cask_packages e))) (fst (get_macports_packages e)))
       (fst (get_app_store_apps e))) (fst (get_python_packages e))"
  by (simp add: macos_installed_software_def split: prod.splits)

lemma macos_installed_failed:
  "\<forall>c. \<not> succeeded (run e c) \<Longrightarrow> fst (macos_installed_software e) = []"
  by (simp add: fst_macos_installed macos_probes_failed linux_probes_failed dict_update_Nil)

lemma reader_failed:
  "\<forall>c. \<not> succeeded (run e c) \<Longrightarrow> fst (reader_installed_software reader e) = []"
  by (cases reader) (simp_all add: linux_installed_failed windows_installed_failed macos_installed_failed)

lemma ports_failed:
  assumes "\<forall>c. \<not> succeeded (run e c)"
  shows "get_windows_ports e = []" and "get_linux_ports e = []" and "get_macos_ports e = []"
proof -
  have 1: "win_netstat e info = info" for info
    using assms [rule_format, of "[''netstat'', ''-ano'']"]
    by (simp add: win_netstat_def succeeded_def split: proc.splits)
  have 2: "win_processes e [] = []"
    by (simp add: win_processes_def)
  have 3: "win_tcp e info = info" for info
    using assms [rule_format, of "[''powershell'', ''-Command'', tcp_script]"]
    by (simp add: win_tcp_def succeeded_def split: proc.splits)
  show "get_windows_ports e = []"
    by (simp add: get_windows_ports_def 1 2 3)
  have 4: "linux_netstat e info = info" for info
    using assms [rule_format, of "[''netstat'', ''-tulpn'']"]
    by (simp add: linux_netstat_def succeeded_def split: proc.splits)
  have 5: "linux_ss e info = info" for info
    using assms [rule_format, of "[''ss'', ''-tulpn'']"]
    by (simp add: linux_ss_def succeeded_def split: proc.splits)
  show "get_linux_ports e = []"
    by (simp add: get_linux_ports_def 4 5)
  have 6: "macos_netstat e info = info" for info
    using assms [rule_format, of "[''netstat'', ''-an'']"]
    by (simp add: macos_netstat_def succeeded_def split: proc.splits)
  have 7: "macos_lsof e info = info" for info
    using assms [rule_format, of "[''lsof'', ''-i'', ''-P'', ''-n'']"]
    by (simp add: macos_lsof_def succeeded_def split: proc.splits)
  show "get_macos_ports e = []"
    by (simp add: get_macos_ports_def 6 7)
qed

lemma fw_powershell_failed:
  assumes "\<forall>c. \<not> succeeded (run e c)"
  shows "fw_powershell e script handle info = info"
  using assms [rule_format, of "[''powershell'', ''-Command'', script]"]
  by (simp add: fw_powershell_def succeeded_def split: proc.splits)

lemma fw_profiler_failed:
  assumes "\<forall>c. \<not> succeeded (run e c)"
  shows "fw_profiler e data_type handle info = info"
  using assms [rule_format, of "[''system_profiler'', data_type, ''-json'']"]
  by (simp add: fw_profiler_def succeeded_def split: proc.splits)

lemma firmware_failed:
  assumes "\<forall>c. \<not> succeeded (run e c)"
  shows "get_windows_firmware e = []" and "get_linux_firmware e = []" and "get_macos_firmware e = []"
proof -
  show "get_windows_firmware e = []"
    using assms by (simp add: get_windows_firmware_def Let_def fw_powershell_failed)
  have 1: "linux_bios e info = info" for info
    using assms [rule_format, of "[''dmidecode'', ''-t'', ''bios'']"]
    by (simp add: linux_bios_def succeeded_def split: proc.splits)
  have 2: "linux_network e info = info" for info
    using assms [rule_format, of "[''lspci'', ''-v'']"]
    by (simp add: linux_network_def succeeded_def split: proc.splits)
  have 3: "linux_storage e info = info" for info
    using assms [rule_format, of "[''lsblk'', ''-o'', ''NAME,MODEL,SERIAL,REV'']"]
    by (simp add: linux_storage_def succeeded_def split: proc.splits)
  show "get_linux_firmware e = []"
    by (simp add: get_linux_firmware_def 1 2 3)
  show "get_macos_firmware e = []"
    using assms by (simp add: get_macos_firmware_def fw_profiler_failed)
qed

lemma firmware_undecodable:
  assumes "\<forall>s. isl (json_loads e s)"
  shows "get_windows_firmware e = []" and "get_macos_firmware e = []"
proof -
  have 1: "fw_powershell e script handle info = info" for script handle info
    using assms [rule_format, of "case run e [''powershell'', ''-Command'', script] of
                                     Completed rc out \<Rightarrow> out | Raises ex \<Rightarrow> []"]
    by (auto simp: fw_powershell_def split: proc.splits sum.splits)
  have 2: "fw_profiler e data_type handle info = info" for data_type handle info
    using assms [rule_format, of "case run e [''system_profiler'', data_type, ''-json''] of
                                     Completed rc out \<Rightarrow> out | Raises ex \<Rightarrow> []"]
    by (auto simp: fw_profiler_def split: proc.splits sum.splits)
  show "get_windows_firmware e = []"
    by (simp add: get_windows_firmware_def Let_def 1)
  show "get_macos_firmware e = []"
    by (simp add: get_macos_firmware_def 2)
qed

section \<open>The three entry points by platform\<close>

lemma platform_names:
  "''linux'' \<noteq> ''windows''" "''darwin'' \<noteq> ''windows''" "''darwin'' \<noteq> ''linux''"
  by simp_all

lemma entry_windows:
  assumes "lower (system e) = ''windows''"
  shows "get_installed_software e = Inr (windows_installed_software e)"
    and "get_listening_ports e = Inr (PDict (get_windows_ports e))"
    and "get_firmware_info e = Inr (PDict (get_windows_firmware e))"
  using assms
  by (simp_all add: get_installed_software_def get_platform_reader_def get_listening_ports_def
      get_firmware_info_def Let_def)

lemma entry_linux:
  assumes "lower (system e) = ''linux''"
  shows "get_installed_software e = Inr (linux_installed_software e)"
    and "get_listening_ports e = Inr (PDict (get_linux_ports e))"
    and "get_firmware_info e = Inr (PDict (get_linux_firmware e))"
  using assms
  by (simp_all add: get_installed_software_def get_platform_reader_def get_listening_ports_def
      get_firmware_info_def Let_def)

lemma entry_darwin:
  assumes "lower (system e) = ''darwin''"
  shows "get_installed_software e = Inr (macos_installed_software e)"
    and "get_listening_ports e = Inr (PDict (get_macos_ports e))"
    and "get_firmware_info e = Inr (PDict (get_macos_firmware e))"
  using assms
  by (simp_all add: get_installed_software_def get_platform_reader_def get_listening_ports_def
      get_firmware_info_def Let_def)

lemma entry_unsupported:
  assumes "lower (system e) \<noteq> ''windows''" and "lower (system e) \<noteq> ''linux''"
    and "lower (system e) \<noteq> ''darwin''"
  shows "get_installed_software e = Inl (Exn OSError (unsupported (lower (system e))))"
    and "get_software_summary e = Inl (Exn OSError (unsupported (lower (system e))))"
    and "get_listening_ports e = Inr (PDict [(PStr ''error'', PStr (unsupported (lower (system e))))])"
    and "get_firmware_info e = Inr (PDict [(PStr ''error'', PStr (unsupported (lower (system e))))])"
  using assms
  by (simp_all add: get_installed_software_def get_software_summary_def get_platform_reader_def
      get_listening_ports_def get_firmware_info_def Let_def)

lemma error_not_category:
  "PStr ''error'' \<notin> {PStr ''Listening Ports'', PStr ''Listening Ports'', PStr ''TCP Listeners''}"
  "PStr ''error'' \<notin> {PStr ''Listening Ports'', PStr ''SS Listeners''}"
  "PStr ''error'' \<notin> {PStr ''Listening Ports'', PStr ''LSOF Listeners''}"
  "PStr ''error'' \<notin> {PStr ''BIOS/UEFI'', PStr ''Motherboard'', PStr ''Network Adapters'',
                         PStr ''Storage Devices'', PStr ''Graphics Cards''}"
  "PStr ''error'' \<notin> {PStr ''BIOS/UEFI'', PStr ''Network Devices'', PStr ''Storage Devices''}"
  "PStr ''error'' \<notin> {PStr ''System Firmware'', PStr ''Storage Devices''}"
  by simp_all

lemma no_error_key:
  "map_of (get_windows_ports e) (PStr ''error'') = None"
  "map_of (get_linux_ports e) (PStr ''error'') = None"
  "map_of (get_macos_ports e) (PStr ''error'') = None"
  "map_of (get_windows_firmware e) (PStr ''error'') = None"
  "map_of (get_linux_firmware e) (PStr ''error'') = None"
  "map_of (get_macos_firmware e) (PStr ''error'') = None"
  by (rule error_not_key [OF windows_ports_keys error_not_category(1)]
      error_not_key [OF linux_ports_keys error_not_category(2)]
      error_not_key [OF macos_ports_keys error_not_category(3)]
      error_not_key [OF windows_firmware_keys error_not_category(4)]
      error_not_key [OF linux_firmware_keys error_not_category(5)]
      error_not_key [OF macos_firmware_keys error_not_category(6)])+

section \<open>C4: an unsupported platform\<close>

text \<open>
  C4: on a system that is none of Windows, Linux and macOS each entry point gives the
  caller one explicit error, \<^verbatim>\<open>get_installed_software\<close> (and the summary) by raising
  \<^verbatim>\<open>OSError\<close> and the port and firmware entry points by returning the dictionary
  with the single key \<^verbatim>\<open>error\<close>, both with the text that names the system; on the
  three supported systems no entry point raises and no result has the key
  \<^verbatim>\<open>error\<close>.
\<close>

theorem unsupported_platform:
  "(lower (system e) \<notin> {''windows'', ''linux'', ''darwin''} \<longrightarrow>
      get_installed_software e =
        Inl (Exn OSError (''Unsupported operating system: '' @ lower (system e))) \<and>
      get_software_summary e =
        Inl (Exn OSError (''Unsupported operating system: '' @ lower (system e))) \<and>
      get_listening_ports e =
        Inr (PDict [(PStr ''error'', PStr (''Unsupported operating system: '' @ lower (system e)))]) \<and>
      get_firmware_info e =
        Inr (PDict [(PStr ''error'', PStr (''Unsupported operating system: '' @ lower (system e)))])) \<and>
   (lower (system e) \<in> {''windows'', ''linux'', ''darwin''} \<longrightarrow>
      (\<exists>r. get_installed_software e = Inr r) \<and>
      (\<exists>d. get_listening_ports e = Inr (PDict d) \<and> map_of d (PStr ''error'') = None) \<and>
      (\<exists>d. get_firmware_info e = Inr (PDict d) \<and> map_of d (PStr ''error'') = None))"
proof (intro conjI impI)
  assume "lower (system e) \<in> {''windows'', ''linux'', ''darwin''}"
  then consider "lower (system e) = ''windows''" | "lower (system e) = ''linux''"
    | "lower (system e) = ''darwin''" by blast
  then have "(\<exists>r. get_installed_software e = Inr r) \<and>
      (\<exists>d. get_listening_ports e = Inr (PDict d) \<and> map_of d (PStr ''error'') = None) \<and>
      (\<exists>d. get_firmware_info e = Inr (PDict d) \<and> map_of d (PStr ''error'') = None)"
  proof cases
    case 1
    then show ?thesis by (simp add: entry_windows no_error_key)
  next
    case 2
    then show ?thesis by (simp add: entry_linux no_error_key)
  next
    case 3
    then show ?thesis by (simp add: entry_darwin no_error_key)
  qed
  then show "\<exists>r. get_installed_software e = Inr r"
    and "\<exists>d. get_listening_ports e = Inr (PDict d) \<and> map_of d (PStr ''error'') = None"
    and "\<exists>d. get_firmware_info e = Inr (PDict d) \<and> map_of d (PStr ''error'') = None"
    by blast+
next
  assume "lower (system e) \<notin> {''windows'', ''linux'', ''darwin''}"
  then have n: "lower (system e) \<noteq> ''windows''" "lower (system e) \<noteq> ''linux''"
    "lower (system e) \<noteq> ''darwin''" by blast+
  show "get_installed_software e =
        Inl (Exn OSError (''Unsupported operating system: '' @ lower (system e)))"
    using entry_unsupported(1) [OF n] by (simp add: unsupported_def)
  show "get_software_summary e =
        Inl (Exn OSError (''Unsupported operating system: '' @ lower (system e)))"
    using entry_unsupported(2) [OF n] by (simp add: unsupported_def)
  show "get_listening_ports e =
        Inr (PDict [(PStr ''error'', PStr (''Unsupported operating system: '' @ lower (system e)))])"
    using entry_unsupported(3) [OF n] by (simp add: unsupported_def)
  show "get_firmware_info e =
        Inr (PDict [(PStr ''error'', PStr (''Unsupported operating system: '' @ lower (system e)))])"
    using entry_unsupported(4) [OF n] by (simp add: unsupported_def)
qed

lemma lower_freebsd: "lower (system env_freebsd) = ''freebsd''"
  unfolding env_freebsd_def env_snap_missing_def by code_simp

lemma lower_linux: "lower (system env_snap_missing) = ''linux''"
  unfolding env_snap_missing_def by code_simp

theorem unsupported_platform_witness:
  "get_installed_software env_freebsd = Inl (Exn OSError ''Unsupported operating system: freebsd'') \<and>
   get_listening_ports env_freebsd =
     Inr (PDict [(PStr ''error'', PStr ''Unsupported operating system: freebsd'')]) \<and>
   get_firmware_info env_freebsd =
     Inr (PDict [(PStr ''error'', PStr ''Unsupported operating system: freebsd'')]) \<and>
   (\<exists>r. get_installed_software env_snap_missing = Inr r)"
  using unsupported_platform [of env_freebsd] unsupported_platform [of env_snap_missing]
  by (simp add: lower_freebsd lower_linux)

lemma collectors_by_platform:
  assumes "get_installed_software e = Inr sw"
    and "get_listening_ports e = Inr (PDict p)"
    and "get_firmware_info e = Inr (PDict f)"
    and "(\<forall>c. \<not> succeeded (run e c)) \<Longrightarrow> fst sw = []"
    and "(\<forall>c. \<not> succeeded (run e c)) \<Longrightarrow> p = []"
    and "(\<forall>c. \<not> succeeded (run e c)) \<Longrightarrow> f = []"
  shows "(\<exists>d evs. get_installed_software e = Inr (d, evs) \<and>
                ((\<forall>c. \<not> succeeded (run e c)) \<longrightarrow> d = [])) \<and>
      (\<exists>d. get_listening_ports e = Inr (PDict d) \<and> ((\<forall>c. \<not> succeeded (run e c)) \<longrightarrow> d = [])) \<and>
      (\<exists>d. get_firmware_info e = Inr (PDict d) \<and> ((\<forall>c. \<not> succeeded (run e c)) \<longrightarrow> d = []))"
proof (intro conjI)
  obtain d evs where sw: "sw = (d, evs)" by (cases sw)
  with assms(1,4) have "get_installed_software e = Inr (d, evs) \<and>
                ((\<forall>c. \<not> succeeded (run e c)) \<longrightarrow> d = [])" by simp
  then show "\<exists>d evs. get_installed_software e = Inr (d, evs) \<and>
                ((\<forall>c. \<not> succeeded (run e c)) \<longrightarrow> d = [])" by blast
  from assms(2,5) have "get_listening_ports e = Inr (PDict p) \<and>
      ((\<forall>c. \<not> succeeded (run e c)) \<longrightarrow> p = [])" by simp
  then show "\<exists>d. get_listening_ports e = Inr (PDict d) \<and>
      ((\<forall>c. \<not> succeeded (run e c)) \<longrightarrow> d = [])" by blast
  from assms(3,6) have "get_firmware_info e = Inr (PDict f) \<and>
      ((\<forall>c. \<not> succeeded (run e c)) \<longrightarrow> f = [])" by simp
  then show "\<exists>d. get_firmware_info e = Inr (PDict d) \<and>
      ((\<forall>c. \<not> succeeded (run e c)) \<longrightarrow> d = [])" by blast
qed

section \<open>C2: a failing probe never fails the collector\<close>

text \<open>
  C2: on a supported platform each of the three collectors returns a dictionary for every
  outcome of every command (a raised exception for a missing executable, a timeout or
  undecodable output; any exit status; any output text) and for every answer of the JSON
  decoder; when no command succeeds the dictionary is empty, and so is the Windows and
  the macOS firmware dictionary when no output decodes.
\<close>

theorem collectors_never_raise:
  "(lower (system e) \<in> {''windows'', ''linux'', ''darwin''} \<longrightarrow>
      (\<exists>d evs. get_installed_software e = Inr (d, evs) \<and>
                ((\<forall>c. \<not> succeeded (run e c)) \<longrightarrow> d = [])) \<and>
      (\<exists>d. get_listening_ports e = Inr (PDict d) \<and> ((\<forall>c. \<not> succeeded (run e c)) \<longrightarrow> d = [])) \<and>
      (\<exists>d. get_firmware_info e = Inr (PDict d) \<and> ((\<forall>c. \<not> succeeded (run e c)) \<longrightarrow> d = []))) \<and>
   ((\<forall>s. isl (json_loads e s)) \<longrightarrow> get_windows_firmware e = [] \<and> get_macos_firmware e = [])"
proof (intro conjI impI)
  assume "lower (system e) \<in> {''windows'', ''linux'', ''darwin''}"
  then consider "lower (system e) = ''windows''" | "lower (system e) = ''linux''"
    | "lower (system e) = ''darwin''" by blast
  then have "(\<exists>d evs. get_installed_software e = Inr (d, evs) \<and>
                ((\<forall>c. \<not> succeeded (run e c)) \<longrightarrow> d = [])) \<and>
      (\<exists>d. get_listening_ports e = Inr (PDict d) \<and> ((\<forall>c. \<not> succeeded (run e c)) \<longrightarrow> d = [])) \<and>
      (\<exists>d. get_firmware_info e = Inr (PDict d) \<and> ((\<forall>c. \<not> succeeded (run e c)) \<longrightarrow> d = []))"
  proof cases
    case 1
    show ?thesis
      by (rule collectors_by_platform [OF entry_windows [OF 1]])
        (simp_all add: windows_installed_failed ports_failed firmware_failed)
  next
    case 2
    show ?thesis
      by (rule collectors_by_platform [OF entry_linux [OF 2]])
        (simp_all add: linux_installed_failed ports_failed firmware_failed)
  next
    case 3
    show ?thesis
      by (rule collectors_by_platform [OF entry_darwin [OF 3]])
        (simp_all add: macos_installed_failed ports_failed firmware_failed)
  qed
  then show "\<exists>d evs. get_installed_software e = Inr (d, evs) \<and>
                ((\<forall>c. \<not> succeeded (run e c)) \<longrightarrow> d = [])"
    and "\<exists>d. get_listening_ports e = Inr (PDict d) \<and> ((\<forall>c. \<not> succeeded (run e c)) \<longrightarrow> d = [])"
    and "\<exists>d. get_firmware_info e = Inr (PDict d) \<and> ((\<forall>c. \<not> succeeded (run e c)) \<longrightarrow> d = [])"
    by blast+
next
  assume a: "\<forall>s. isl (json_loads e s)"
  show "get_windows_firmware e = []" by (rule firmware_undecodable(1) [OF a])
  show "get_macos_firmware e = []" by (rule firmware_undecodable(2) [OF a])
qed

theorem collectors_never_raise_witness:
  "(\<exists>evs. get_installed_software env_snap_missing = Inr ([], evs)) \<and>
   get_listening_ports env_snap_missing = Inr (PDict []) \<and>
   get_firmware_info env_snap_missing = Inr (PDict []) \<and>
   get_windows_firmware env_snap_missing = []"
proof -
  have f: "\<forall>c. \<not> succeeded (run env_snap_missing c)"
    by (simp add: env_snap_missing_def no_tool_def succeeded_def)
  have j: "\<forall>s. isl (json_loads env_snap_missing s)"
    by (simp add: env_snap_missing_def)
  from collectors_never_raise [of env_snap_missing] f j show ?thesis
    by (auto simp: lower_linux)
qed


end
